theory Spec2Isabelle
  imports Main
begin

section \<open>JavaScript values used by rn-prodeeplinks\<close>

text \<open>
  Strings are lists of code units; a \<^typ>\<open>char\<close> stands for a code unit below 256.
  An optional property (\<^verbatim>\<open>error?: string\<close>) is an \<^typ>\<open>string option\<close>, where
  \<^term>\<open>None\<close> is \<^verbatim>\<open>undefined\<close>. The HTTP status and the attempt counter are
  natural numbers.
\<close>

text \<open>
  A number that the library receives from the platform and only prints or passes on
  (a window dimension, the Android \<^verbatim>\<open>Platform.Version\<close>): it is given by the text that
  \<^verbatim>\<open>Number.prototype.toString\<close>, and so a template literal, produces for it, such as
  \<^verbatim>\<open>412\<close>, \<^verbatim>\<open>411.42857142857144\<close> or \<^verbatim>\<open>1e+21\<close>. The library never computes
  with these numbers; \<^verbatim>\<open>-0\<close>, which prints as \<^verbatim>\<open>0\<close>, is not told apart from
  \<^verbatim>\<open>0\<close>.
\<close>

datatype jsnumber = JsNumber (numberText: string)

text \<open>An \<^verbatim>\<open>Error\<close> object: its \<^verbatim>\<open>name\<close> and its \<^verbatim>\<open>message\<close>.\<close>

datatype js_error = JsError (err_name: string) (err_message: string)

text \<open>The outcome of calling a function of the host platform or of the caller.\<close>

datatype 'a call = Returns 'a | Throws js_error

text \<open>A function reached through optional chaining (\<^verbatim>\<open>api?.()\<close>) may be missing.\<close>

datatype 'a optional_api = Unavailable | Available "'a call"

text \<open>A property typed \<^verbatim>\<open>string | null\<close> that may also be absent.\<close>

datatype 'a nullable = Undefined | Null | Val 'a

text \<open>Truthiness of an optional string: \<^verbatim>\<open>undefined\<close> and \<^verbatim>\<open>''\<close> are falsy.\<close>

definition truthy :: "string option \<Rightarrow> bool" where
  "truthy s = (case s of None \<Rightarrow> False | Some v \<Rightarrow> v \<noteq> [])"

definition truthyN :: "string nullable \<Rightarrow> bool" where
  "truthyN s = (case s of Val v \<Rightarrow> v \<noteq> [] | _ \<Rightarrow> False)"

text \<open>\<^verbatim>\<open>a || d\<close> for an optional string \<^verbatim>\<open>a\<close> and a string literal \<^verbatim>\<open>d\<close>.\<close>

definition orElse :: "string option \<Rightarrow> string \<Rightarrow> string" where
  "orElse a d = (case a of None \<Rightarrow> d | Some v \<Rightarrow> if v = [] then d else v)"

text \<open>\<^verbatim>\<open>a || b\<close> where both sides are optional strings.\<close>

definition orOpt :: "string option \<Rightarrow> string option \<Rightarrow> string option" where
  "orOpt a b = (if truthy a then a else b)"

text \<open>
  \<^verbatim>\<open>String.prototype.trim\<close> removes white space and line terminators from both ends;
  these are the ones below code unit 256.
\<close>

definition isWhiteSpace :: "char \<Rightarrow> bool" where
  "isWhiteSpace c = (of_char c \<in> {9, 10, 11, 12, 13, 32, 160 :: nat})"

definition trim :: "string \<Rightarrow> string" where
  "trim s = rev (dropWhile isWhiteSpace (rev (dropWhile isWhiteSpace s)))"

text \<open>\<^verbatim>\<open>s.includes(sub)\<close>: \<^verbatim>\<open>sub\<close> occurs in \<^verbatim>\<open>s\<close> as a contiguous run.\<close>

definition startsWith :: "string \<Rightarrow> string \<Rightarrow> bool" where
  "startsWith s sub = (take (length sub) s = sub)"

fun str_includes :: "string \<Rightarrow> string \<Rightarrow> bool" where
  "str_includes [] sub = (sub = [])"
| "str_includes (c # cs) sub = (startsWith (c # cs) sub \<or> str_includes cs sub)"

text \<open>\<^verbatim>\<open>error?.includes(sub)\<close>: \<^verbatim>\<open>undefined\<close>, hence falsy, when there is no error text.\<close>

definition includesOpt :: "string option \<Rightarrow> string \<Rightarrow> bool" where
  "includesOpt e sub = (case e of None \<Rightarrow> False | Some s \<Rightarrow> str_includes s sub)"

text \<open>\<^verbatim>\<open>s.split('-')[0]\<close>: the text before the first hyphen.\<close>

definition splitFirst :: "string \<Rightarrow> string" where
  "splitFirst s = takeWhile (\<lambda>c. c \<noteq> CHR ''-'') s"

text \<open>Decimal text of an HTTP status, as a template literal prints it.\<close>

definition digit :: "nat \<Rightarrow> char" where
  "digit d = ''0123456789'' ! d"

fun showNat :: "nat \<Rightarrow> string" where
  "showNat n = (if n < 10 then [digit n] else showNat (n div 10) @ [digit (n mod 10)])"

declare showNat.simps [simp del]

section \<open>HTTP as the library sees it\<close>

text \<open>
  What \<^verbatim>\<open>fetch\<close> did for one request: it resolved with a status and a body that
  \<^verbatim>\<open>response.json()\<close> either parses or rejects, or it rejected (connection failure,
  or \<^verbatim>\<open>AbortError\<close> when the timeout fired).
\<close>

datatype 'b fetch_outcome =
    Response (status: nat) (json: "js_error + 'b")
  | Rejected js_error

definition response_ok :: "nat \<Rightarrow> bool" where
  "response_ok st = (200 \<le> st \<and> st \<le> 299)"

section \<open>license.ts\<close>

record LicenseValidationResult =
  isValid :: bool
  message :: "string option"

definition validateLicenseKeyFormat :: "string \<Rightarrow> LicenseValidationResult" where
  "validateLicenseKeyFormat licenseKey =
     (if licenseKey = [] \<or> trim licenseKey = []
      then \<lparr>isValid = False, message = Some ''License key is required''\<rparr>
      else \<lparr>isValid = True, message = None\<rparr>)"

section \<open>types.ts\<close>

datatype platform = Ios | Android

definition platformName :: "platform \<Rightarrow> string" where
  "platformName p = (case p of Ios \<Rightarrow> ''ios'' | Android \<Rightarrow> ''android'')"

record DeviceFingerprint =
  platform :: platform
  osVersion :: string
  deviceId :: string
  deviceModel :: string
  manufacturer :: "string option"
  screenResolution :: string
  screenWidth :: jsnumber
  screenHeight :: jsnumber
  timezone :: "string option"
  language :: "string option"
  "locale" :: "string option"
  appVersion :: string
  carrier :: "string option"
  connectionType :: "string option"
  isSimulator :: "bool option"
  isRooted :: "bool option"
  ipAddress :: "string option"

record DeepLinkResponse =
  success :: bool
  url :: "string nullable"
  msg :: "string option"
  error :: "string option"

text \<open>The body of a Matching Service reply, \<^verbatim>\<open>{success, url?, message?}\<close>.\<close>

record MatchBody =
  mSuccess :: bool
  mUrl :: "string option"
  mMessage :: "string option"

text \<open>
  \<^verbatim>\<open>LicenseValidationApiResponse\<close>, with the \<^verbatim>\<open>message\<close> and \<^verbatim>\<open>error\<close>
  properties that \<^verbatim>\<open>validateLicenseInit\<close> reads through its index signature. A body
  that failed to parse is replaced by \<^verbatim>\<open>{}\<close>, where every property is missing.
\<close>

record LicenseBody =
  lSuccess :: bool
  lValid :: bool
  lMessage :: "string option"
  lError :: "string option"

definition emptyLicenseBody :: LicenseBody where
  "emptyLicenseBody = \<lparr>lSuccess = False, lValid = False, lMessage = None, lError = None\<rparr>"

text \<open>
  A JSON-like value for analytics events, whose properties are open
  (\<^verbatim>\<open>[key: string]: any\<close>). An object is the list of its own properties in order.
\<close>

datatype jsval =
    JUndefined
  | JNull
  | JBool bool
  | JNum jsnumber
  | JStr string
  | JArr "jsval list"
  | JObj "(string \<times> jsval) list"

section \<open>fingerprint.ts\<close>

text \<open>
  What the device reports when \<^verbatim>\<open>generateDeviceFingerprint\<close> asks. \<^verbatim>\<open>Platform\<close> and
  \<^verbatim>\<open>Dimensions.get('window')\<close> are the react-native constants that the function's own
  fallback branch reads again, so they are plain values; every call into
  react-native-device-info, NetInfo and \<^verbatim>\<open>Intl\<close> may throw.
\<close>

record IntlOptions =
  intlLocale :: string
  intlTimeZone :: string

text \<open>
  \<^verbatim>\<open>netInfo.type\<close>, and \<^verbatim>\<open>netInfo.details\<close>: \<^term>\<open>None\<close> when it is null, otherwise
  its \<^verbatim>\<open>ipAddress\<close> property (\<^term>\<open>Undefined\<close> when the key is not in the object).
\<close>

record NetInfoState =
  netType :: string
  netDetails :: "string nullable option"

record device =
  platformOS :: platform
  platformVersion :: "string + jsnumber"
  window :: "jsnumber \<times> jsnumber"
  getUniqueId :: "string call"
  getModel :: "string call"
  getManufacturer :: "string call"
  getSystemVersion :: "string call"
  getVersion :: "string call"
  getBuildNumber :: "string call"
  isEmulator :: "bool call"
  isDeviceRooted :: "bool optional_api"
  getDeviceLocales :: "string list option optional_api"
  getDeviceLocale :: "string option optional_api"
  intlResolvedOptions :: "IntlOptions call"
  netInfoFetch :: "NetInfoState call"
  getCarrier :: "string option call"
  getIpAddress :: "string option optional_api"

text \<open>Sequencing inside a \<^verbatim>\<open>try\<close> block: the first throw leaves the block.\<close>

definition andThen :: "'a call \<Rightarrow> ('a \<Rightarrow> 'b call) \<Rightarrow> 'b call" where
  "andThen m f = (case m of Throws e \<Rightarrow> Throws e | Returns v \<Rightarrow> f v)"

text \<open>\<^verbatim>\<open>api?.() ?? d\<close>: the default when the function is missing.\<close>

definition callOr :: "'a optional_api \<Rightarrow> 'a \<Rightarrow> 'a call" where
  "callOr api d = (case api of Unavailable \<Rightarrow> Returns d | Available c \<Rightarrow> c)"

text \<open>The template literal \<^verbatim>\<open>${width}x${height}\<close>.\<close>

definition screenResolutionOf :: "jsnumber \<times> jsnumber \<Rightarrow> string" where
  "screenResolutionOf wh = numberText (fst wh) @ ''x'' @ numberText (snd wh)"

text \<open>\<^verbatim>\<open>Platform.Version.toString()\<close>: a string on iOS, a number on Android.\<close>

definition versionToString :: "string + jsnumber \<Rightarrow> string" where
  "versionToString v = (case v of Inl s \<Rightarrow> s | Inr n \<Rightarrow> numberText n)"

text \<open>
  \<^verbatim>\<open>Array.isArray(deviceLocales) && deviceLocales.length > 0 ? deviceLocales[0] : undefined\<close>
\<close>

definition primaryLocaleOf :: "string list option \<Rightarrow> string option" where
  "primaryLocaleOf deviceLocales =
     (case deviceLocales of None \<Rightarrow> None | Some [] \<Rightarrow> None | Some (l # _) \<Rightarrow> Some l)"

text \<open>
  The IP lookup with its own \<^verbatim>\<open>try\<close>/\<^verbatim>\<open>catch\<close>: a throw leaves \<^verbatim>\<open>ipAddress\<close>
  undefined; a missing or empty answer falls back to \<^verbatim>\<open>netInfo.details.ipAddress\<close>.
\<close>

definition collectIpAddress :: "string option optional_api \<Rightarrow> NetInfoState \<Rightarrow> string option" where
  "collectIpAddress api netInfo =
     (case callOr api None of
        Throws e \<Rightarrow> None
      | Returns ip \<Rightarrow>
          if \<not> truthy ip then
            (case netDetails netInfo of
               None \<Rightarrow> ip
             | Some Undefined \<Rightarrow> ip
             | Some Null \<Rightarrow> None
             | Some (Val a) \<Rightarrow> Some a)
          else ip)"

text \<open>The body of the \<^verbatim>\<open>try\<close> block of \<^verbatim>\<open>generateDeviceFingerprint\<close>.\<close>

definition collect :: "device \<Rightarrow> DeviceFingerprint call" where
  "collect d =
     andThen (getUniqueId d) (\<lambda>deviceId.
     andThen (getModel d) (\<lambda>deviceModel.
     andThen (if platformOS d = Android then andThen (getManufacturer d) (\<lambda>m. Returns (Some m))
              else Returns (Some ''Apple'')) (\<lambda>manufacturer.
     andThen (getSystemVersion d) (\<lambda>osVersion.
     andThen (getVersion d) (\<lambda>appVersion.
     andThen (getBuildNumber d) (\<lambda>buildNumber.
     andThen (isEmulator d) (\<lambda>isSimulator.
     andThen (if platformOS d = Android then callOr (isDeviceRooted d) False
              else Returns False) (\<lambda>isRooted.
     andThen (callOr (getDeviceLocales d) None) (\<lambda>deviceLocales.
     andThen (callOr (getDeviceLocale d) None) (\<lambda>legacyLocale.
     andThen (if truthy (orOpt (primaryLocaleOf deviceLocales) legacyLocale)
              then Returns (orOpt (primaryLocaleOf deviceLocales) legacyLocale)
              else andThen (intlResolvedOptions d) (\<lambda>opts. Returns (Some (intlLocale opts))))
             (\<lambda>chosen.
     andThen (intlResolvedOptions d) (\<lambda>opts.
     andThen (netInfoFetch d) (\<lambda>netInfo.
     andThen (if platformOS d = Ios then getCarrier d else Returns None) (\<lambda>carrier.
       let locale = orElse chosen ''en'';
           language = orElse (Some (splitFirst (orElse (Some locale) []))) ''en''
       in Returns
         \<lparr>platform = platformOS d,
          osVersion = osVersion,
          deviceId = deviceId,
          deviceModel = deviceModel,
          manufacturer = manufacturer,
          screenResolution = screenResolutionOf (window d),
          screenWidth = fst (window d),
          screenHeight = snd (window d),
          timezone = Some (intlTimeZone opts),
          language = Some language,
          locale = Some locale,
          appVersion = appVersion @ '' ('' @ buildNumber @ '')'',
          carrier = carrier,
          connectionType = (if netType netInfo = [] then None else Some (netType netInfo)),
          isSimulator = Some isSimulator,
          isRooted = Some isRooted,
          ipAddress = collectIpAddress (getIpAddress d) netInfo\<rparr>))))))))))))))"

text \<open>The \<^verbatim>\<open>catch\<close> branch: the minimal fingerprint.\<close>

definition minimalFingerprint :: "device \<Rightarrow> DeviceFingerprint" where
  "minimalFingerprint d =
     \<lparr>platform = platformOS d,
      osVersion = versionToString (platformVersion d),
      deviceId = ''unknown'',
      deviceModel = ''unknown'',
      manufacturer = None,
      screenResolution = screenResolutionOf (window d),
      screenWidth = fst (window d),
      screenHeight = snd (window d),
      timezone = None,
      language = None,
      locale = None,
      appVersion = ''unknown'',
      carrier = None,
      connectionType = None,
      isSimulator = None,
      isRooted = None,
      ipAddress = None\<rparr>"

definition generateDeviceFingerprint :: "device \<Rightarrow> DeviceFingerprint" where
  "generateDeviceFingerprint d =
     (case collect d of Returns fingerprint \<Rightarrow> fingerprint | Throws e \<Rightarrow> minimalFingerprint d)"

section \<open>Observable effects\<close>

text \<open>
  Every function that talks to the outside returns, next to its result, the list of the
  effects it caused, in order. The \<^verbatim>\<open>timestamp\<close> of the matching request
  (\<^verbatim>\<open>Date.now()\<close>) and console output are left out.
\<close>

datatype request_body =
    MatchPayload string DeviceFingerprint
  | ValidatePayload string
  | AnalyticsPayload "(string \<times> jsval) list"

record http_request =
  reqUrl :: string
  reqHeaders :: "(string \<times> string) list"
  reqBody :: request_body

datatype effect =
    LaunchUrlProbe
  | FingerprintCollection
  | HttpPost http_request
  | Sleep nat
  | CallbackCall string

section \<open>api.ts\<close>

definition BASE_API_URL :: string where
  "BASE_API_URL = ''https://api.prodeeplinks.com''"

definition ANALYTICS_ENDPOINT :: string where
  "ANALYTICS_ENDPOINT = BASE_API_URL @ ''/custom-deep-link/track/event''"

definition failed :: "string \<Rightarrow> DeepLinkResponse" where
  "failed m = \<lparr>success = False, url = Undefined, msg = None, error = Some m\<rparr>"

text \<open>
  The two \<^verbatim>\<open>catch\<close> blocks of \<^verbatim>\<open>fetchDeepLinkUrl\<close>: an \<^verbatim>\<open>AbortError\<close> is the
  timeout, anything else is rethrown to the outer block.
\<close>

definition fetchFailure :: "js_error \<Rightarrow> DeepLinkResponse" where
  "fetchFailure e =
     (if err_name e = ''AbortError'' then failed ''Request timeout''
      else failed (orElse (Some (err_message e)) ''Failed to fetch deep link URL''))"

definition matchRequest :: "string \<Rightarrow> string \<Rightarrow> DeviceFingerprint \<Rightarrow> http_request" where
  "matchRequest endpoint licenseKey fingerprint =
     \<lparr>reqUrl = endpoint,
      reqHeaders = [(''Content-Type'', ''application/json''), (''x-license-key'', licenseKey)],
      reqBody = MatchPayload licenseKey fingerprint\<rparr>"

text \<open>
  \<^verbatim>\<open>fetchDeepLinkUrl(licenseKey, fingerprint, apiEndpoint)\<close>; the last argument is what
  the network does with the request, should one be sent (the \<^verbatim>\<open>timeout\<close> argument
  only decides when that is an \<^verbatim>\<open>AbortError\<close>).
\<close>

definition fetchDeepLinkUrl ::
  "string \<Rightarrow> DeviceFingerprint \<Rightarrow> string option \<Rightarrow> MatchBody fetch_outcome
     \<Rightarrow> DeepLinkResponse \<times> effect list" where
  "fetchDeepLinkUrl licenseKey fingerprint apiEndpoint outcome =
     (let endpoint = orElse apiEndpoint BASE_API_URL;
          validation = validateLicenseKeyFormat licenseKey
      in if \<not> isValid validation
         then (failed (orElse (message validation) ''Invalid license key''), [])
         else
           ((case outcome of
               Rejected fetchError \<Rightarrow> fetchFailure fetchError
             | Response st body \<Rightarrow>
                 if \<not> response_ok st
                 then failed (orElse (case body of Inl _ \<Rightarrow> None | Inr errorData \<Rightarrow> mMessage errorData)
                                (''API error: '' @ showNat st))
                 else
                   (case body of
                      Inl parseError \<Rightarrow> fetchFailure parseError
                    | Inr data \<Rightarrow>
                        if mSuccess data then
                          (case mUrl data of
                             Some u \<Rightarrow>
                               if u \<noteq> []
                               then \<lparr>success = True, url = Val u, msg = mMessage data, error = None\<rparr>
                               else \<lparr>success = True, url = Null,
                                     msg = Some (orElse (mMessage data) ''No deep link available''),
                                     error = None\<rparr>
                           | None \<Rightarrow>
                               \<lparr>success = True, url = Null,
                                msg = Some (orElse (mMessage data) ''No deep link available''),
                                error = None\<rparr>)
                        else failed (orElse (mMessage data) ''No URL returned from API''))),
            [HttpPost (matchRequest endpoint licenseKey fingerprint)]))"

text \<open>The test that ends the retry loop early.\<close>

definition noRetry :: "DeepLinkResponse \<Rightarrow> bool" where
  "noRetry result = (includesOpt (error result) ''license'' \<or> includesOpt (error result) ''Invalid'')"

text \<open>
  The \<^verbatim>\<open>for\<close> loop of \<^verbatim>\<open>fetchDeepLinkUrlWithRetry\<close>, from the current value of
  \<^verbatim>\<open>attempt\<close> and \<^verbatim>\<open>lastError\<close>; \<^verbatim>\<open>net k\<close> is what the network does in attempt \<^verbatim>\<open>k\<close>.
\<close>

function retryLoop ::
  "string \<Rightarrow> DeviceFingerprint \<Rightarrow> nat \<Rightarrow> string option \<Rightarrow> (nat \<Rightarrow> MatchBody fetch_outcome)
     \<Rightarrow> nat \<Rightarrow> DeepLinkResponse option \<Rightarrow> DeepLinkResponse \<times> effect list" where
  "retryLoop licenseKey fingerprint retryAttempts apiEndpoint net attempt lastError =
     (if attempt \<le> retryAttempts then
        (let (result, io) = fetchDeepLinkUrl licenseKey fingerprint apiEndpoint (net attempt)
         in if success result then (result, io)
            else if noRetry result then (result, io)
            else
              (let wait = (if attempt < retryAttempts then [Sleep (1000 * attempt)] else []);
                   (final, rest) = retryLoop licenseKey fingerprint retryAttempts apiEndpoint net
                                     (Suc attempt) (Some result)
               in (final, io @ wait @ rest)))
      else
        ((case lastError of
            Some e \<Rightarrow> e
          | None \<Rightarrow> failed ''Failed after retries''), []))"
  by pat_completeness auto
termination
  by (relation "measure (\<lambda>(k, f, n, e, net, a, l). Suc n - a)") auto

declare retryLoop.simps [simp del]

definition fetchDeepLinkUrlWithRetry ::
  "string \<Rightarrow> DeviceFingerprint \<Rightarrow> nat \<Rightarrow> string option \<Rightarrow> (nat \<Rightarrow> MatchBody fetch_outcome)
     \<Rightarrow> DeepLinkResponse \<times> effect list" where
  "fetchDeepLinkUrlWithRetry licenseKey fingerprint retryAttempts apiEndpoint net =
     retryLoop licenseKey fingerprint retryAttempts apiEndpoint net 1 None"

record InitValidation =
  vSuccess :: bool
  vError :: "string option"
  vStatus :: "nat option"

definition validateLicenseInit ::
  "string \<Rightarrow> LicenseBody fetch_outcome \<Rightarrow> InitValidation \<times> effect list" where
  "validateLicenseInit licenseKey outcome =
     ((case outcome of
         Rejected e \<Rightarrow>
           \<lparr>vSuccess = False,
            vError = Some (orElse (Some (err_message e)) ''License validation request failed''),
            vStatus = None\<rparr>
       | Response st body \<Rightarrow>
           (let data = (case body of Inl _ \<Rightarrow> emptyLicenseBody | Inr b \<Rightarrow> b)
            in if \<not> response_ok st
               then \<lparr>vSuccess = False,
                     vError = Some (orElse (orOpt (lMessage data) (lError data))
                                      ''License validation failed''),
                     vStatus = Some st\<rparr>
               else if \<not> lSuccess data \<or> \<not> lValid data
               then \<lparr>vSuccess = False,
                     vError = Some (orElse (orOpt (lMessage data) (lError data))
                                      ''License is not valid''),
                     vStatus = Some st\<rparr>
               else \<lparr>vSuccess = True, vError = None, vStatus = Some st\<rparr>)),
      [HttpPost
         \<lparr>reqUrl = BASE_API_URL @ ''/custom-deep-link/license/validate'',
          reqHeaders = [(''Content-Type'', ''application/json''), (''x-license-key'', licenseKey)],
          reqBody = ValidatePayload licenseKey\<rparr>])"

definition trackCustomDeepLinkEvent ::
  "(string \<times> jsval) list \<Rightarrow> string option \<Rightarrow> jsval fetch_outcome \<Rightarrow> jsval \<times> effect list" where
  "trackCustomDeepLinkEvent event licenseKey outcome =
     ((case outcome of
         Response st body \<Rightarrow> (case body of Inl _ \<Rightarrow> JObj [] | Inr data \<Rightarrow> data)
       | Rejected e \<Rightarrow>
           JObj [(''success'', JBool False),
                 (''error'', JStr (orElse (Some (err_message e)) ''Analytics event tracking failed''))]),
      [HttpPost
         \<lparr>reqUrl = ANALYTICS_ENDPOINT,
          reqHeaders = (''Content-Type'', ''application/json'') #
            (case licenseKey of
               Some k \<Rightarrow> if k \<noteq> [] then [(''x-license-key'', k)] else []
             | None \<Rightarrow> []),
          reqBody = AnalyticsPayload event\<rparr>])"

section \<open>index.ts\<close>

text \<open>The module-level variables \<^verbatim>\<open>storedLicenseKey\<close> and \<^verbatim>\<open>isInitialized\<close>.\<close>

record sdk_state =
  storedLicenseKey :: "string option"
  isInitialized :: bool

definition initialState :: sdk_state where
  "initialState = \<lparr>storedLicenseKey = None, isInitialized = False\<rparr>"

definition DEFAULT_API_ENDPOINT :: string where
  "DEFAULT_API_ENDPOINT = ''https://api.prodeeplink.com/v1/deeplink''"

record InitConfig =
  licenseKey :: string
  apiBaseUrl :: "string option"
  apiPrefix :: "string option"
  domain :: "string option"

record InitResult =
  initSuccess :: bool
  initError :: "string option"

text \<open>
  \<^verbatim>\<open>init(config)\<close>: the result, the module state afterwards and the effects. Neither
  \<^verbatim>\<open>validateLicenseKeyFormat\<close> nor \<^verbatim>\<open>validateLicenseInit\<close> throws, so the
  \<^verbatim>\<open>catch\<close> block is not reached.
\<close>

definition init ::
  "sdk_state \<Rightarrow> InitConfig \<Rightarrow> LicenseBody fetch_outcome \<Rightarrow> InitResult \<times> sdk_state \<times> effect list" where
  "init st config outcome =
     (let validation = validateLicenseKeyFormat (licenseKey config)
      in if \<not> isValid validation
         then (\<lparr>initSuccess = False,
                initError = Some (orElse (message validation) ''Invalid license key'')\<rparr>, st, [])
         else
           (let (remoteValidation, io) = validateLicenseInit (licenseKey config) outcome
            in if \<not> vSuccess remoteValidation
               then (\<lparr>initSuccess = False,
                      initError = Some (orElse (vError remoteValidation) ''License validation failed'')\<rparr>,
                     st, io)
               else (\<lparr>initSuccess = True, initError = None\<rparr>,
                     st\<lparr>storedLicenseKey := Some (licenseKey config), isInitialized := True\<rparr>,
                     io)))"

definition isReady :: "sdk_state \<Rightarrow> bool" where
  "isReady st = (isInitialized st \<and> storedLicenseKey st \<noteq> None)"

definition reset :: "sdk_state \<Rightarrow> sdk_state" where
  "reset st = st\<lparr>storedLicenseKey := None, isInitialized := False\<rparr>"

definition notInitialized :: string where
  "notInitialized = ''Please call init() first with your license key''"

text \<open>
  \<^verbatim>\<open>const { licenseKey: _ignored, ...payload } = event\<close>: every own property except
  \<^verbatim>\<open>licenseKey\<close>, in order.
\<close>

definition withoutLicenseKey :: "(string \<times> jsval) list \<Rightarrow> (string \<times> jsval) list" where
  "withoutLicenseKey event = filter (\<lambda>kv. fst kv \<noteq> ''licenseKey'') event"

definition trackAnalyticsEvent ::
  "sdk_state \<Rightarrow> (string \<times> jsval) list \<Rightarrow> jsval fetch_outcome \<Rightarrow> jsval \<times> effect list" where
  "trackAnalyticsEvent st event outcome =
     (if \<not> isInitialized st \<or> \<not> truthy (storedLicenseKey st)
      then (JObj [(''success'', JBool False), (''error'', JStr notInitialized)], [])
      else trackCustomDeepLinkEvent (withoutLicenseKey event) (storedLicenseKey st) outcome)"

definition optStr :: "string option \<Rightarrow> jsval" where
  "optStr v = (case v of None \<Rightarrow> JUndefined | Some x \<Rightarrow> JStr x)"

definition optBool :: "bool option \<Rightarrow> jsval" where
  "optBool v = (case v of None \<Rightarrow> JUndefined | Some b \<Rightarrow> JBool b)"

text \<open>A fingerprint as the object that goes into an event's \<^verbatim>\<open>properties\<close>.\<close>

definition fingerprintValue :: "DeviceFingerprint \<Rightarrow> jsval" where
  "fingerprintValue f =
     JObj [(''platform'', JStr (platformName (platform f))),
           (''osVersion'', JStr (osVersion f)),
           (''deviceId'', JStr (deviceId f)),
           (''deviceModel'', JStr (deviceModel f)),
           (''manufacturer'', optStr (manufacturer f)),
           (''screenResolution'', JStr (screenResolution f)),
           (''screenWidth'', JNum (screenWidth f)),
           (''screenHeight'', JNum (screenHeight f)),
           (''timezone'', optStr (timezone f)),
           (''language'', optStr (language f)),
           (''locale'', optStr (locale f)),
           (''appVersion'', JStr (appVersion f)),
           (''carrier'', optStr (carrier f)),
           (''connectionType'', optStr (connectionType f)),
           (''isSimulator'', optBool (isSimulator f)),
           (''isRooted'', optBool (isRooted f)),
           (''ipAddress'', optStr (ipAddress f))]"

text \<open>
  \<^verbatim>\<open>trackDeepLinkResolved(url, source, fingerprint)\<close> returns nothing; what remains is
  its effects.
\<close>

definition trackDeepLinkResolved ::
  "sdk_state \<Rightarrow> string \<Rightarrow> string \<Rightarrow> DeviceFingerprint \<Rightarrow> jsval fetch_outcome \<Rightarrow> effect list" where
  "trackDeepLinkResolved st u source fingerprint outcome =
     (let event =
            [(''eventType'', JStr ''deeplink''),
             (''eventName'', JStr ''pro_track''),
             (''category'', JStr source),
             (''action'', JStr ''open''),
             (''label'', JStr u),
             (''properties'',
                JObj [(''shortUrl'', JStr u), (''source'', JStr source),
                      (''fingerprint'', fingerprintValue fingerprint)])]
      in snd (trackAnalyticsEvent st event outcome))"

text \<open>
  Everything outside the module that one \<^verbatim>\<open>getDeepLink\<close> call meets: the answer of
  \<^verbatim>\<open>Linking.getInitialURL()\<close>, the device, the network behind the matching endpoint
  (one outcome per attempt) and behind the analytics endpoint.
\<close>

record world =
  getInitialURL :: "string option call"
  dev :: device
  matchNet :: "nat \<Rightarrow> MatchBody fetch_outcome"
  analyticsNet :: "jsval fetch_outcome"

text \<open>The outer \<^verbatim>\<open>catch\<close> block of \<^verbatim>\<open>getDeepLink\<close>.\<close>

definition caught :: "js_error \<Rightarrow> DeepLinkResponse" where
  "caught e = failed (orElse (Some (err_message e)) ''Unknown error occurred'')"

text \<open>
  \<^verbatim>\<open>getDeepLink(callback)\<close>. The caller's callback may throw; the call is inside the
  outer \<^verbatim>\<open>try\<close> block. The module state is only read.
\<close>

definition getDeepLink ::
  "sdk_state \<Rightarrow> (string \<Rightarrow> unit call) option \<Rightarrow> world \<Rightarrow> DeepLinkResponse \<times> effect list" where
  "getDeepLink st callback w =
     (if \<not> isInitialized st \<or> \<not> truthy (storedLicenseKey st)
      then (failed notInitialized, [])
      else
        (case getInitialURL w of
           Throws e \<Rightarrow> (caught e, [LaunchUrlProbe])
         | Returns initialUrl \<Rightarrow>
             if truthy initialUrl then
               (let u = orElse initialUrl [];
                    fingerprint = generateDeviceFingerprint (dev w);
                    io = [LaunchUrlProbe, FingerprintCollection] @
                         trackDeepLinkResolved st u ''linking'' fingerprint (analyticsNet w)
                in case callback of
                     None \<Rightarrow> (\<lparr>success = True, url = Val u, msg = None, error = None\<rparr>, io)
                   | Some cb \<Rightarrow>
                       (case cb u of
                          Throws e \<Rightarrow> (caught e, io @ [CallbackCall u])
                        | Returns _ \<Rightarrow>
                            (\<lparr>success = True, url = Val u, msg = None, error = None\<rparr>,
                             io @ [CallbackCall u])))
             else
               (let fingerprint = generateDeviceFingerprint (dev w);
                    (result, net_io) =
                       fetchDeepLinkUrlWithRetry (orElse (storedLicenseKey st) []) fingerprint 3
                         (Some DEFAULT_API_ENDPOINT) (matchNet w);
                    usable = (success result \<and> truthyN (url result));
                    u = (case url result of Val v \<Rightarrow> v | _ \<Rightarrow> []);
                    io = [LaunchUrlProbe, FingerprintCollection] @ net_io @
                         (if usable
                          then trackDeepLinkResolved st u ''api'' fingerprint (analyticsNet w)
                          else [])
                in if usable then
                     (case callback of
                        None \<Rightarrow> (result, io)
                      | Some cb \<Rightarrow>
                          (case cb u of
                             Throws e \<Rightarrow> (caught e, io @ [CallbackCall u])
                           | Returns _ \<Rightarrow> (result, io @ [CallbackCall u])))
                   else
                     (\<lparr>success = True, url = Null, msg = Some ''No deep link available'',
                       error = None\<rparr>, io))))"

section \<open>Reading a run of the retry loop\<close>

text \<open>What attempt \<^verbatim>\<open>j\<close> returns and what it sends, given the network \<^verbatim>\<open>net\<close>.\<close>

definition attemptResult ::
  "string \<Rightarrow> DeviceFingerprint \<Rightarrow> string option \<Rightarrow> (nat \<Rightarrow> MatchBody fetch_outcome) \<Rightarrow> nat
     \<Rightarrow> DeepLinkResponse" where
  "attemptResult key fp ep net j = fst (fetchDeepLinkUrl key fp ep (net j))"

definition attemptEffects ::
  "string \<Rightarrow> DeviceFingerprint \<Rightarrow> string option \<Rightarrow> (nat \<Rightarrow> MatchBody fetch_outcome) \<Rightarrow> nat
     \<Rightarrow> effect list" where
  "attemptEffects key fp ep net j = snd (fetchDeepLinkUrl key fp ep (net j))"

text \<open>
  The effects of attempts \<^verbatim>\<open>a\<close> to \<^verbatim>\<open>k\<close> in a row, with a pause of
  \<^verbatim>\<open>1000 * j\<close> milliseconds after each attempt \<^verbatim>\<open>j\<close> but the last.
\<close>

definition backoffTrace ::
  "string \<Rightarrow> DeviceFingerprint \<Rightarrow> string option \<Rightarrow> (nat \<Rightarrow> MatchBody fetch_outcome) \<Rightarrow> nat \<Rightarrow> nat
     \<Rightarrow> effect list" where
  "backoffTrace key fp ep net a k =
     concat (map (\<lambda>j. attemptEffects key fp ep net j @ (if j < k then [Sleep (1000 * j)] else []))
               [a..<Suc k])"

text \<open>The pauses in a list of effects, and the number of requests to a matching endpoint.\<close>

fun sleepsOf :: "effect list \<Rightarrow> nat list" where
  "sleepsOf [] = []"
| "sleepsOf (Sleep ms # es) = ms # sleepsOf es"
| "sleepsOf (e # es) = sleepsOf es"

definition isMatchCall :: "effect \<Rightarrow> bool" where
  "isMatchCall e =
     (case e of
        HttpPost r \<Rightarrow> (case reqBody r of MatchPayload k f \<Rightarrow> True | _ \<Rightarrow> False)
      | _ \<Rightarrow> False)"

definition matchCalls :: "effect list \<Rightarrow> nat" where
  "matchCalls es = length (filter isMatchCall es)"

section \<open>Concrete inputs\<close>

text \<open>A key of three blanks, and a reply of the validation service that accepts a key.\<close>

definition blankConfig :: InitConfig where
  "blankConfig = \<lparr>licenseKey = ''   '', apiBaseUrl = None, apiPrefix = None, domain = None\<rparr>"

definition validLicenseReply :: "LicenseBody fetch_outcome" where
  "validLicenseReply =
     Response 200 (Inr \<lparr>lSuccess = True, lValid = True, lMessage = None, lError = None\<rparr>)"

text \<open>A module state after a successful \<^verbatim>\<open>init\<close>.\<close>

definition readyState :: sdk_state where
  "readyState = \<lparr>storedLicenseKey = Some ''LK-1234'', isInitialized = True\<rparr>"

text \<open>An Android phone on which every source answers.\<close>

definition pixel :: device where
  "pixel =
     \<lparr>platformOS = Android,
      platformVersion = Inr (JsNumber ''34''),
      window = (JsNumber ''412'', JsNumber ''915''),
      getUniqueId = Returns ''a1b2c3'',
      getModel = Returns ''Pixel 8'',
      getManufacturer = Returns ''Google'',
      getSystemVersion = Returns ''14'',
      getVersion = Returns ''1.0.0'',
      getBuildNumber = Returns ''42'',
      isEmulator = Returns False,
      isDeviceRooted = Available (Returns False),
      getDeviceLocales = Available (Returns (Some [''fr-FR'', ''en-US''])),
      getDeviceLocale = Unavailable,
      intlResolvedOptions = Returns \<lparr>intlLocale = ''en-US'', intlTimeZone = ''Europe/Paris''\<rparr>,
      netInfoFetch = Returns \<lparr>netType = ''wifi'', netDetails = Some (Val ''10.0.0.7'')\<rparr>,
      getCarrier = Returns (Some ''Orange''),
      getIpAddress = Available (Returns (Some ''192.168.1.20''))\<rparr>"

text \<open>
  A launch without a link, with a matching service that never answers in time: every
  attempt ends in the \<^verbatim>\<open>AbortError\<close> of the timeout.
\<close>

definition timeoutWorld :: world where
  "timeoutWorld =
     \<lparr>getInitialURL = Returns None,
      dev = pixel,
      matchNet = (\<lambda>attempt. Rejected (JsError ''AbortError'' ''Aborted'')),
      analyticsNet = Response 200 (Inr (JObj []))\<rparr>"

text \<open>An event that carries a \<^verbatim>\<open>licenseKey\<close> property of its own.\<close>

definition taggedEvent :: "(string \<times> jsval) list" where
  "taggedEvent =
     [(''licenseKey'', JStr ''someone-elses-key''),
      (''eventType'', JStr ''deeplink''),
      (''eventName'', JStr ''button_click'')]"

text \<open>A 2xx reply of the matching service that reports no match.\<close>

definition noMatchBody :: MatchBody where
  "noMatchBody = \<lparr>mSuccess = True, mUrl = None, mMessage = None\<rparr>"

text \<open>
  A matching service that times out twice and then reports a match; and the fingerprint
  of \<^term>\<open>pixel\<close>.
\<close>

definition flakyNet :: "nat \<Rightarrow> MatchBody fetch_outcome" where
  "flakyNet attempt =
     (if attempt < 3 then Rejected (JsError ''AbortError'' ''Aborted'')
      else Response 200
             (Inr \<lparr>mSuccess = True, mUrl = Some ''myapp://promo/42'', mMessage = None\<rparr>))"

definition pixelFingerprint :: DeviceFingerprint where
  "pixelFingerprint = generateDeviceFingerprint pixel"

text \<open>
  A launch through a link, and two callbacks: one that returns and one that throws.
\<close>

definition linkWorld :: world where
  "linkWorld =
     \<lparr>getInitialURL = Returns (Some ''myapp://promo/42''),
      dev = pixel,
      matchNet = (\<lambda>attempt. Rejected (JsError ''AbortError'' ''Aborted'')),
      analyticsNet = Rejected (JsError ''TypeError'' ''Network request failed'')\<rparr>"

definition quietCallback :: "string \<Rightarrow> unit call" where
  "quietCallback u = Returns ()"

definition throwingCallback :: "string \<Rightarrow> unit call" where
  "throwingCallback u = Throws (JsError ''TypeError'' ''navigate is not a function'')"

text \<open>
  Variants of \<^term>\<open>pixel\<close>: the unique id cannot be read; the first device locale has
  no language before its hyphen; the IP lookup throws and the model name comes back empty;
  the unique id cannot be read and the window is \<^verbatim>\<open>1e21\<close> wide and a fractional number
  of points high; only the IP lookup throws.
\<close>

definition noIdDevice :: device where
  "noIdDevice = pixel\<lparr>getUniqueId := Throws (JsError ''Error'' ''getUniqueId failed'')\<rparr>"

definition dashDevice :: device where
  "dashDevice = pixel\<lparr>getDeviceLocales := Available (Returns (Some [''-US'']))\<rparr>"

definition namelessDevice :: device where
  "namelessDevice =
     pixel\<lparr>getModel := Returns [],
           getIpAddress := Available (Throws (JsError ''Error'' ''no network''))\<rparr>"

definition foldable :: device where
  "foldable =
     noIdDevice\<lparr>window := (JsNumber ''1e+21'', JsNumber ''914.2857142857143'')\<rparr>"

definition noIpDevice :: device where
  "noIpDevice = pixel\<lparr>getIpAddress := Available (Throws (JsError ''Error'' ''no network''))\<rparr>"

section \<open>Facts about the string helpers\<close>

lemma trim_whitespace_only:
  assumes "\<forall>c\<in>set s. isWhiteSpace c"
  shows "trim s = []"
proof -
  have eq: "dropWhile isWhiteSpace s = []"
    using assms by simp
  show ?thesis by (simp only: trim_def eq rev.simps dropWhile.simps)
qed

lemma trim_empty_whitespace_only:
  assumes "trim s = []"
  shows "\<forall>c\<in>set s. isWhiteSpace c"
proof -
  let ?t = "dropWhile isWhiteSpace s"
  from assms have all: "\<forall>c\<in>set ?t. isWhiteSpace c"
    by (simp add: trim_def)
  have "?t = []"
  proof (rule ccontr)
    assume ne: "?t \<noteq> []"
    then have "\<not> isWhiteSpace (hd ?t)" by (rule hd_dropWhile)
    moreover from ne have "hd ?t \<in> set ?t" by simp
    ultimately show False using all by blast
  qed
  then show ?thesis by simp
qed

lemma format_check_iff:
  "isValid (validateLicenseKeyFormat key) \<longleftrightarrow> \<not> (\<forall>c\<in>set key. isWhiteSpace c)"
proof
  assume "isValid (validateLicenseKeyFormat key)"
  then have "trim key \<noteq> []"
    by (simp add: validateLicenseKeyFormat_def split: if_splits)
  with trim_whitespace_only [of key] show "\<not> (\<forall>c\<in>set key. isWhiteSpace c)" by blast
next
  assume "\<not> (\<forall>c\<in>set key. isWhiteSpace c)"
  with trim_empty_whitespace_only [of key] have "trim key \<noteq> []" by blast
  moreover from this have "key \<noteq> []" by (auto simp: trim_def)
  ultimately show "isValid (validateLicenseKeyFormat key)"
    by (simp add: validateLicenseKeyFormat_def)
qed

lemma orElse_nonempty: "d \<noteq> [] \<Longrightarrow> orElse a d \<noteq> []"
  by (auto simp: orElse_def split: option.splits)

lemma showNat_nonempty: "showNat n \<noteq> []"
  by (subst showNat.simps) simp

section \<open>Initialisation\<close>

text \<open>
  Claim C5. The local format check accepts exactly the keys that are not made of white
  space only (the empty key included). \<^verbatim>\<open>init\<close> reports success exactly when this
  check and the remote validation both succeed, and only then stores the key and sets
  the initialised flag.
  When either fails, it returns \<^verbatim>\<open>success = false\<close> with a non-empty error text and
  leaves the module state as it was, so \<^verbatim>\<open>isReady()\<close> answers what it answered before.
  A key that is empty or consists of white space only fails without any effect on the
  outside: no request is sent.
\<close>

theorem init_requires_both_checks:
  "(isValid (validateLicenseKeyFormat (licenseKey config)) \<longleftrightarrow>
      \<not> list_all isWhiteSpace (licenseKey config))
   \<and> (initSuccess (fst (init st config outcome)) \<longleftrightarrow>
      isValid (validateLicenseKeyFormat (licenseKey config)) \<and>
      vSuccess (fst (validateLicenseInit (licenseKey config) outcome)))
   \<and> (initSuccess (fst (init st config outcome)) \<longrightarrow>
        fst (snd (init st config outcome)) =
          st\<lparr>storedLicenseKey := Some (licenseKey config), isInitialized := True\<rparr>)
   \<and> (\<not> initSuccess (fst (init st config outcome)) \<longrightarrow>
        fst (snd (init st config outcome)) = st \<and>
        isReady (fst (snd (init st config outcome))) = isReady st \<and>
        (\<exists>m. initError (fst (init st config outcome)) = Some m \<and> m \<noteq> []))
   \<and> ((\<forall>c\<in>set (licenseKey config). isWhiteSpace c) \<longrightarrow>
        \<not> initSuccess (fst (init st config outcome)) \<and>
        snd (snd (init st config outcome)) = [])"
proof -
  have "isValid (validateLicenseKeyFormat (licenseKey config)) \<longleftrightarrow>
          \<not> list_all isWhiteSpace (licenseKey config)"
    using format_check_iff [of "licenseKey config"] by (simp add: list_all_iff)
  then show ?thesis
    by (auto simp: init_def Let_def validateLicenseKeyFormat_def trim_whitespace_only
          orElse_nonempty split: prod.splits)
qed

theorem init_requires_both_checks_witness:
  "list_all isWhiteSpace (licenseKey blankConfig)
   \<and> \<not> initSuccess (fst (init initialState blankConfig validLicenseReply))
   \<and> snd (snd (init initialState blankConfig validLicenseReply)) = []
   \<and> fst (snd (init initialState blankConfig validLicenseReply)) = initialState
   \<and> \<not> isReady (fst (snd (init initialState blankConfig validLicenseReply)))"
proof -
  have ws: "\<forall>c\<in>set (licenseKey blankConfig). isWhiteSpace c"
    by (simp add: blankConfig_def isWhiteSpace_def)
  note th = init_requires_both_checks
    [where st = initialState and config = blankConfig and outcome = validLicenseReply]
  from th ws have rejected:
    "\<not> initSuccess (fst (init initialState blankConfig validLicenseReply))
     \<and> snd (snd (init initialState blankConfig validLicenseReply)) = []"
    by blast
  with th have same: "fst (snd (init initialState blankConfig validLicenseReply)) = initialState"
    by blast
  have "\<not> isReady initialState"
    by (simp add: isReady_def initialState_def)
  with ws rejected same show ?thesis by (simp add: list_all_iff)
qed

lemma valid_example_key: "isValid (validateLicenseKeyFormat ''LK-1234'')"
  by (simp add: validateLicenseKeyFormat_def trim_def isWhiteSpace_def)

section \<open>Calls before initialisation\<close>

text \<open>
  Claim C8. In every state in which the module is not ready, \<^verbatim>\<open>getDeepLink\<close> returns
  \<^verbatim>\<open>success = false\<close> with the fixed error text and causes no effect at all: no probe,
  no fingerprint collection, no request. The module is not ready in its initial state,
  after \<^verbatim>\<open>reset()\<close>, and after an \<^verbatim>\<open>init\<close> that failed in a state that was not ready.
\<close>

theorem uninitialized_rejected:
  "(\<not> isReady st \<longrightarrow>
      getDeepLink st callback w =
        (\<lparr>success = False, url = Undefined, msg = None,
          error = Some ''Please call init() first with your license key''\<rparr>, []))
   \<and> \<not> isReady initialState
   \<and> \<not> isReady (reset st)
   \<and> (\<not> isReady st \<and> \<not> initSuccess (fst (init st config outcome)) \<longrightarrow>
        \<not> isReady (fst (snd (init st config outcome))))"
proof -
  have a: "\<not> isReady st \<longrightarrow>
      getDeepLink st callback w =
        (\<lparr>success = False, url = Undefined, msg = None,
          error = Some ''Please call init() first with your license key''\<rparr>, [])"
    by (auto simp: isReady_def getDeepLink_def failed_def notInitialized_def truthy_def)
  have b: "\<not> isReady initialState" by (simp add: isReady_def initialState_def)
  have c: "\<not> isReady (reset st)" by (simp add: isReady_def reset_def)
  have d: "\<not> isReady st \<and> \<not> initSuccess (fst (init st config outcome)) \<longrightarrow>
        \<not> isReady (fst (snd (init st config outcome)))"
    by (auto simp: init_def Let_def split: prod.splits if_splits)
  from a b c d show ?thesis by blast
qed

theorem uninitialized_rejected_witness:
  "\<not> isReady (reset readyState)
   \<and> getDeepLink (reset readyState) None timeoutWorld =
        (\<lparr>success = False, url = Undefined, msg = None,
          error = Some ''Please call init() first with your license key''\<rparr>, [])"
  using uninitialized_rejected [of "reset readyState" None timeoutWorld] uninitialized_rejected [of readyState]
  by blast

section \<open>Interpreting the matching service's reply\<close>

text \<open>
  Claim C4. For a key that passes the format check (so that a request is sent) and a
  2xx reply whose body parses: with \<^verbatim>\<open>success = true\<close> and no usable URL the result
  is the miss \<^verbatim>\<open>{success: true, url: null}\<close>; with \<^verbatim>\<open>success = true\<close> and a URL it
  is the hit carrying that URL; with \<^verbatim>\<open>success = false\<close> it is a failure whose error
  is the server's message, or \<^verbatim>\<open>No URL returned from API\<close> when there is none.
\<close>

theorem match_response_interpretation:
  assumes "isValid (validateLicenseKeyFormat key)" and "response_ok st"
  shows "(mSuccess data \<and> \<not> truthy (mUrl data) \<longrightarrow>
            fst (fetchDeepLinkUrl key fingerprint apiEndpoint (Response st (Inr data))) =
              \<lparr>success = True, url = Null,
               msg = Some (orElse (mMessage data) ''No deep link available''), error = None\<rparr>)
       \<and> (mSuccess data \<and> mUrl data = Some u \<and> u \<noteq> [] \<longrightarrow>
            fst (fetchDeepLinkUrl key fingerprint apiEndpoint (Response st (Inr data))) =
              \<lparr>success = True, url = Val u, msg = mMessage data, error = None\<rparr>)
       \<and> (\<not> mSuccess data \<longrightarrow>
            fst (fetchDeepLinkUrl key fingerprint apiEndpoint (Response st (Inr data))) =
              \<lparr>success = False, url = Undefined, msg = None,
               error = Some (orElse (mMessage data) ''No URL returned from API'')\<rparr>)"
  using assms
  by (auto simp: fetchDeepLinkUrl_def Let_def truthy_def failed_def split: option.splits)

theorem match_response_interpretation_witness:
  "isValid (validateLicenseKeyFormat ''LK-1234'') \<and> response_ok 200
   \<and> fst (fetchDeepLinkUrl ''LK-1234'' (generateDeviceFingerprint pixel) None
             (Response 200 (Inr noMatchBody))) =
       \<lparr>success = True, url = Null, msg = Some ''No deep link available'', error = None\<rparr>"
proof -
  have v: "isValid (validateLicenseKeyFormat ''LK-1234'')"
    by (simp add: validateLicenseKeyFormat_def trim_def isWhiteSpace_def)
  have ok: "response_ok 200" by (simp add: response_ok_def)
  from match_response_interpretation [OF v ok, of noMatchBody] v ok show ?thesis
    by (simp add: noMatchBody_def truthy_def orElse_def)
qed

section \<open>The retry loop\<close>

lemma retryLoop_stop:
  assumes "a \<le> n"
    and "success (attemptResult key fp ep net a) \<or> noRetry (attemptResult key fp ep net a)"
  shows "retryLoop key fp n ep net a l = (attemptResult key fp ep net a, attemptEffects key fp ep net a)"
  using assms
  by (subst retryLoop.simps) (auto simp: attemptResult_def attemptEffects_def split: prod.splits)

lemma retryLoop_continue:
  assumes "a \<le> n"
    and "\<not> success (attemptResult key fp ep net a)"
    and "\<not> noRetry (attemptResult key fp ep net a)"
  shows "retryLoop key fp n ep net a l =
           (fst (retryLoop key fp n ep net (Suc a) (Some (attemptResult key fp ep net a))),
            attemptEffects key fp ep net a @ (if a < n then [Sleep (1000 * a)] else []) @
            snd (retryLoop key fp n ep net (Suc a) (Some (attemptResult key fp ep net a))))"
  using assms
  by (subst retryLoop.simps) (auto simp: attemptResult_def attemptEffects_def split: prod.splits)

lemma retryLoop_done:
  assumes "n < a"
  shows "retryLoop key fp n ep net a (Some e) = (e, [])"
  using assms by (subst retryLoop.simps) simp

lemma backoffTrace_single:
  "backoffTrace key fp ep net a a = attemptEffects key fp ep net a"
  by (simp add: backoffTrace_def)

lemma backoffTrace_step:
  assumes "a < k"
  shows "backoffTrace key fp ep net a k =
           attemptEffects key fp ep net a @ [Sleep (1000 * a)] @ backoffTrace key fp ep net (Suc a) k"
proof -
  from assms have "[a..<Suc k] = a # [Suc a..<Suc k]"
    by (simp add: upt_conv_Cons)
  with assms show ?thesis by (simp add: backoffTrace_def)
qed

lemma retryLoop_run:
  assumes "a \<le> n"
  shows "\<exists>k. a \<le> k \<and> k \<le> n
           \<and> (\<forall>j. a \<le> j \<and> j < k \<longrightarrow>
                 \<not> success (attemptResult key fp ep net j) \<and> \<not> noRetry (attemptResult key fp ep net j))
           \<and> (success (attemptResult key fp ep net k) \<or> noRetry (attemptResult key fp ep net k) \<or> k = n)
           \<and> retryLoop key fp n ep net a l =
                (attemptResult key fp ep net k, backoffTrace key fp ep net a k)"
  using assms
proof (induction "n - a" arbitrary: a l)
  case 0
  then have an: "a = n" by simp
  show ?case
  proof (cases "success (attemptResult key fp ep net a) \<or> noRetry (attemptResult key fp ep net a)")
    case True
    with an retryLoop_stop [of a n key fp ep net l] show ?thesis
      by (intro exI [of _ a]) (auto simp: backoffTrace_single)
  next
    case False
    with an retryLoop_continue [of a n key fp ep net l]
      retryLoop_done [of n "Suc a" key fp ep net "attemptResult key fp ep net a"]
    show ?thesis
      by (intro exI [of _ a]) (auto simp: backoffTrace_single)
  qed
next
  case (Suc d)
  then have lt: "a < n" by simp
  show ?case
  proof (cases "success (attemptResult key fp ep net a) \<or> noRetry (attemptResult key fp ep net a)")
    case True
    with lt retryLoop_stop [of a n key fp ep net l] show ?thesis
      by (intro exI [of _ a]) (auto simp: backoffTrace_single)
  next
    case False
    from Suc lt have "d = n - Suc a" and "Suc a \<le> n" by simp_all
    from Suc.hyps(1) [OF this, of "Some (attemptResult key fp ep net a)"]
    obtain k where k: "Suc a \<le> k" "k \<le> n"
        "\<forall>j. Suc a \<le> j \<and> j < k \<longrightarrow>
           \<not> success (attemptResult key fp ep net j) \<and> \<not> noRetry (attemptResult key fp ep net j)"
        "success (attemptResult key fp ep net k) \<or> noRetry (attemptResult key fp ep net k) \<or> k = n"
        "retryLoop key fp n ep net (Suc a) (Some (attemptResult key fp ep net a)) =
           (attemptResult key fp ep net k, backoffTrace key fp ep net (Suc a) k)"
      by blast
    from k(1) have ak: "a < k" by simp
    have before: "\<forall>j. a \<le> j \<and> j < k \<longrightarrow>
           \<not> success (attemptResult key fp ep net j) \<and> \<not> noRetry (attemptResult key fp ep net j)"
    proof (intro allI impI)
      fix j assume j: "a \<le> j \<and> j < k"
      show "\<not> success (attemptResult key fp ep net j) \<and> \<not> noRetry (attemptResult key fp ep net j)"
      proof (cases "j = a")
        case True with False show ?thesis by simp
      next
        case False with j k(3) show ?thesis by simp
      qed
    qed
    have run: "retryLoop key fp n ep net a l =
                (attemptResult key fp ep net k, backoffTrace key fp ep net a k)"
      using False lt retryLoop_continue [of a n key fp ep net l] k(5) backoffTrace_step [OF ak]
      by simp
    from ak k(2) before k(4) run show ?thesis
      by (intro exI [of _ k]) simp
  qed
qed


lemma sleepsOf_append: "sleepsOf (xs @ ys) = sleepsOf xs @ sleepsOf ys"
  by (induction xs rule: sleepsOf.induct) simp_all

lemma matchCalls_append: "matchCalls (xs @ ys) = matchCalls xs + matchCalls ys"
  by (simp add: matchCalls_def)

lemma matchCalls_Sleep: "matchCalls (Sleep ms # es) = matchCalls es"
  by (simp add: matchCalls_def isMatchCall_def)

lemma sleepsOf_attempt: "sleepsOf (attemptEffects key fp ep net j) = []"
  by (simp add: attemptEffects_def fetchDeepLinkUrl_def Let_def)

lemma matchCalls_attempt:
  "matchCalls (attemptEffects key fp ep net j) = (if isValid (validateLicenseKeyFormat key) then 1 else 0)"
  by (simp add: attemptEffects_def fetchDeepLinkUrl_def Let_def matchCalls_def isMatchCall_def
        matchRequest_def)

lemma sleepsOf_backoffTrace:
  assumes "a \<le> k"
  shows "sleepsOf (backoffTrace key fp ep net a k) = map (\<lambda>j. 1000 * j) [a..<k]"
  using assms
proof (induction "k - a" arbitrary: a)
  case 0
  then have "a = k" by simp
  then show ?case by (simp add: backoffTrace_single sleepsOf_attempt)
next
  case (Suc d)
  then have lt: "a < k" and d: "d = k - Suc a" and le: "Suc a \<le> k" by simp_all
  from lt have "[a..<k] = a # [Suc a..<k]" by (simp add: upt_conv_Cons)
  with Suc.hyps(1) [OF d le] lt show ?case
    by (simp add: backoffTrace_step sleepsOf_append sleepsOf_attempt)
qed

lemma matchCalls_backoffTrace:
  assumes "a \<le> k"
  shows "matchCalls (backoffTrace key fp ep net a k) =
           (if isValid (validateLicenseKeyFormat key) then Suc k - a else 0)"
  using assms
proof (induction "k - a" arbitrary: a)
  case 0
  then have "a = k" by simp
  then show ?case by (simp add: backoffTrace_single matchCalls_attempt)
next
  case (Suc d)
  then have lt: "a < k" and d: "d = k - Suc a" and le: "Suc a \<le> k" by simp_all
  from Suc.hyps(1) [OF d le] lt show ?case
    by (auto simp: backoffTrace_step matchCalls_append matchCalls_attempt matchCalls_Sleep)
qed

text \<open>
  Claim C2. With \<^verbatim>\<open>maxAttempts = n \<ge> 1\<close>, \<^verbatim>\<open>fetchDeepLinkUrlWithRetry\<close> makes
  attempts \<^verbatim>\<open>1, \<dots>, k\<close> in sequence for some \<^verbatim>\<open>k \<le> n\<close>: every attempt before
  \<^verbatim>\<open>k\<close> failed with an error that mentions neither \<^verbatim>\<open>license\<close> nor \<^verbatim>\<open>Invalid\<close>;
  attempt \<^verbatim>\<open>k\<close> succeeded, or failed with such an error, or was attempt \<^verbatim>\<open>n\<close>; the
  result is that of attempt \<^verbatim>\<open>k\<close>; the effects are those of the attempts with a pause
  of exactly \<^verbatim>\<open>1000 * j\<close> ms after each attempt \<^verbatim>\<open>j < k\<close> and none after the last.
  Hence the first attempt that succeeds or reports a license error ends the run with its
  result, and when there is none the result is the failure of attempt \<^verbatim>\<open>n\<close>.
\<close>

theorem retry_policy:
  assumes "1 \<le> n"
  shows
    "(\<exists>k. 1 \<le> k \<and> k \<le> n
        \<and> (\<forall>j. 1 \<le> j \<and> j < k \<longrightarrow>
              \<not> success (attemptResult key fp ep net j) \<and> \<not> noRetry (attemptResult key fp ep net j))
        \<and> (success (attemptResult key fp ep net k) \<or> noRetry (attemptResult key fp ep net k) \<or> k = n)
        \<and> fst (fetchDeepLinkUrlWithRetry key fp n ep net) = attemptResult key fp ep net k
        \<and> snd (fetchDeepLinkUrlWithRetry key fp n ep net) = backoffTrace key fp ep net 1 k
        \<and> sleepsOf (snd (fetchDeepLinkUrlWithRetry key fp n ep net)) = map (\<lambda>j. 1000 * j) [1..<k]
        \<and> matchCalls (snd (fetchDeepLinkUrlWithRetry key fp n ep net)) =
            (if isValid (validateLicenseKeyFormat key) then k else 0))
     \<and> (\<forall>j. 1 \<le> j \<and> j \<le> n
           \<and> (success (attemptResult key fp ep net j) \<or> noRetry (attemptResult key fp ep net j))
           \<and> (\<forall>i. 1 \<le> i \<and> i < j \<longrightarrow>
                 \<not> success (attemptResult key fp ep net i) \<and> \<not> noRetry (attemptResult key fp ep net i))
           \<longrightarrow> fst (fetchDeepLinkUrlWithRetry key fp n ep net) = attemptResult key fp ep net j
             \<and> snd (fetchDeepLinkUrlWithRetry key fp n ep net) = backoffTrace key fp ep net 1 j)
     \<and> ((\<forall>j. 1 \<le> j \<and> j \<le> n \<longrightarrow>
            \<not> success (attemptResult key fp ep net j) \<and> \<not> noRetry (attemptResult key fp ep net j))
         \<longrightarrow> fst (fetchDeepLinkUrlWithRetry key fp n ep net) = attemptResult key fp ep net n
           \<and> snd (fetchDeepLinkUrlWithRetry key fp n ep net) = backoffTrace key fp ep net 1 n)"
proof -
  let ?R = "attemptResult key fp ep net"
  from retryLoop_run [OF assms, of key fp ep net None]
  obtain k where k: "1 \<le> k" "k \<le> n"
      "\<forall>j. 1 \<le> j \<and> j < k \<longrightarrow> \<not> success (?R j) \<and> \<not> noRetry (?R j)"
      "success (?R k) \<or> noRetry (?R k) \<or> k = n"
      "fetchDeepLinkUrlWithRetry key fp n ep net = (?R k, backoffTrace key fp ep net 1 k)"
    unfolding fetchDeepLinkUrlWithRetry_def by blast
  have first: "\<exists>k. 1 \<le> k \<and> k \<le> n
        \<and> (\<forall>j. 1 \<le> j \<and> j < k \<longrightarrow> \<not> success (?R j) \<and> \<not> noRetry (?R j))
        \<and> (success (?R k) \<or> noRetry (?R k) \<or> k = n)
        \<and> fst (fetchDeepLinkUrlWithRetry key fp n ep net) = ?R k
        \<and> snd (fetchDeepLinkUrlWithRetry key fp n ep net) = backoffTrace key fp ep net 1 k
        \<and> sleepsOf (snd (fetchDeepLinkUrlWithRetry key fp n ep net)) = map (\<lambda>j. 1000 * j) [1..<k]
        \<and> matchCalls (snd (fetchDeepLinkUrlWithRetry key fp n ep net)) =
            (if isValid (validateLicenseKeyFormat key) then k else 0)"
    using k sleepsOf_backoffTrace [OF k(1), of key fp ep net]
      matchCalls_backoffTrace [OF k(1), of key fp ep net]
    by (intro exI [of _ k]) simp
  have second: "\<forall>j. 1 \<le> j \<and> j \<le> n
           \<and> (success (?R j) \<or> noRetry (?R j))
           \<and> (\<forall>i. 1 \<le> i \<and> i < j \<longrightarrow> \<not> success (?R i) \<and> \<not> noRetry (?R i))
           \<longrightarrow> fst (fetchDeepLinkUrlWithRetry key fp n ep net) = ?R j
             \<and> snd (fetchDeepLinkUrlWithRetry key fp n ep net) = backoffTrace key fp ep net 1 j"
  proof (intro allI impI)
    fix j
    assume j: "1 \<le> j \<and> j \<le> n \<and> (success (?R j) \<or> noRetry (?R j))
           \<and> (\<forall>i. 1 \<le> i \<and> i < j \<longrightarrow> \<not> success (?R i) \<and> \<not> noRetry (?R i))"
    have "\<not> k < j"
    proof
      assume "k < j"
      with j k(1) have "\<not> success (?R k) \<and> \<not> noRetry (?R k)" by blast
      with k(4) have "k = n" by blast
      with \<open>k < j\<close> j show False by simp
    qed
    moreover have "\<not> j < k"
    proof
      assume "j < k"
      with j k(3) show False by blast
    qed
    ultimately have "k = j" by simp
    with k(5) show "fst (fetchDeepLinkUrlWithRetry key fp n ep net) = ?R j
             \<and> snd (fetchDeepLinkUrlWithRetry key fp n ep net) = backoffTrace key fp ep net 1 j"
      by simp
  qed
  have third: "(\<forall>j. 1 \<le> j \<and> j \<le> n \<longrightarrow> \<not> success (?R j) \<and> \<not> noRetry (?R j))
         \<longrightarrow> fst (fetchDeepLinkUrlWithRetry key fp n ep net) = ?R n
           \<and> snd (fetchDeepLinkUrlWithRetry key fp n ep net) = backoffTrace key fp ep net 1 n"
  proof
    assume "\<forall>j. 1 \<le> j \<and> j \<le> n \<longrightarrow> \<not> success (?R j) \<and> \<not> noRetry (?R j)"
    with k(1,2) have "\<not> success (?R k) \<and> \<not> noRetry (?R k)" by blast
    with k(4) have "k = n" by blast
    with k(5) show "fst (fetchDeepLinkUrlWithRetry key fp n ep net) = ?R n
           \<and> snd (fetchDeepLinkUrlWithRetry key fp n ep net) = backoffTrace key fp ep net 1 n"
      by simp
  qed
  from first second third show ?thesis by blast
qed

lemma timeout_result:
  "fetchDeepLinkUrl ''LK-1234'' fp ep (Rejected (JsError ''AbortError'' ''Aborted'')) =
     (failed ''Request timeout'', [HttpPost (matchRequest (orElse ep BASE_API_URL) ''LK-1234'' fp)])"
  by (simp add: fetchDeepLinkUrl_def Let_def validateLicenseKeyFormat_def trim_def isWhiteSpace_def
      fetchFailure_def)

lemma timeout_retryable: "\<not> success (failed ''Request timeout'') \<and> \<not> noRetry (failed ''Request timeout'')"
  by (simp add: failed_def noRetry_def includesOpt_def startsWith_def)

theorem retry_policy_witness:
  "(1::nat) \<le> 3
   \<and> fst (fetchDeepLinkUrlWithRetry ''LK-1234'' pixelFingerprint 3 None flakyNet) =
        \<lparr>success = True, url = Val ''myapp://promo/42'', msg = None, error = None\<rparr>
   \<and> sleepsOf (snd (fetchDeepLinkUrlWithRetry ''LK-1234'' pixelFingerprint 3 None flakyNet)) = [1000, 2000]
   \<and> matchCalls (snd (fetchDeepLinkUrlWithRetry ''LK-1234'' pixelFingerprint 3 None flakyNet)) = 3"
proof -
  let ?R = "attemptResult ''LK-1234'' pixelFingerprint None flakyNet"
  have n: "(1::nat) \<le> 3" by simp
  note th = retry_policy [OF n, of "''LK-1234''" pixelFingerprint None flakyNet]
  have r1: "?R 1 = failed ''Request timeout''" and r2: "?R 2 = failed ''Request timeout''"
    by (simp_all add: attemptResult_def flakyNet_def timeout_result)
  have r3: "?R 3 = \<lparr>success = True, url = Val ''myapp://promo/42'', msg = None, error = None\<rparr>"
    by (simp add: attemptResult_def flakyNet_def fetchDeepLinkUrl_def Let_def
        validateLicenseKeyFormat_def trim_def isWhiteSpace_def response_ok_def)
  have before: "\<forall>i. 1 \<le> i \<and> i < (3::nat) \<longrightarrow> \<not> success (?R i) \<and> \<not> noRetry (?R i)"
  proof (intro allI impI)
    fix i :: nat assume "1 \<le> i \<and> i < 3"
    then have "i = 1 \<or> i = 2" by arith
    with r1 r2 timeout_retryable show "\<not> success (?R i) \<and> \<not> noRetry (?R i)" by auto
  qed
  from th have
    "1 \<le> (3::nat) \<and> (3::nat) \<le> 3 \<and> (success (?R 3) \<or> noRetry (?R 3))
       \<and> (\<forall>i. 1 \<le> i \<and> i < 3 \<longrightarrow> \<not> success (?R i) \<and> \<not> noRetry (?R i))
     \<longrightarrow> fst (fetchDeepLinkUrlWithRetry ''LK-1234'' pixelFingerprint 3 None flakyNet) = ?R 3
       \<and> snd (fetchDeepLinkUrlWithRetry ''LK-1234'' pixelFingerprint 3 None flakyNet) =
           backoffTrace ''LK-1234'' pixelFingerprint None flakyNet 1 3"
    by blast
  with before r3 have res:
    "fst (fetchDeepLinkUrlWithRetry ''LK-1234'' pixelFingerprint 3 None flakyNet) = ?R 3"
    "snd (fetchDeepLinkUrlWithRetry ''LK-1234'' pixelFingerprint 3 None flakyNet) =
       backoffTrace ''LK-1234'' pixelFingerprint None flakyNet 1 3"
    by simp_all
  have s: "sleepsOf (backoffTrace ''LK-1234'' pixelFingerprint None flakyNet 1 3) = [1000, 2000]"
    by (simp add: sleepsOf_backoffTrace upt_rec)
  have m: "matchCalls (backoffTrace ''LK-1234'' pixelFingerprint None flakyNet 1 3) = 3"
    by (simp add: matchCalls_backoffTrace validateLicenseKeyFormat_def trim_def isWhiteSpace_def)
  from res r3 s m show ?thesis by simp
qed

section \<open>Analytics events\<close>

text \<open>
  Claim C10. While the module is initialised, \<^verbatim>\<open>trackAnalyticsEvent\<close> sends exactly one
  request to the analytics endpoint. Its body is the caller's event without any
  \<^verbatim>\<open>licenseKey\<close> property, every other property kept with its value and in order; the
  stored license key travels in the \<^verbatim>\<open>x-license-key\<close> header.
\<close>

theorem analytics_strips_license_key:
  assumes "isInitialized st" and "storedLicenseKey st = Some k" and "k \<noteq> []"
  shows "snd (trackAnalyticsEvent st event outcome) =
           [HttpPost \<lparr>reqUrl = ANALYTICS_ENDPOINT,
                      reqHeaders = [(''Content-Type'', ''application/json''), (''x-license-key'', k)],
                      reqBody = AnalyticsPayload (withoutLicenseKey event)\<rparr>]
         \<and> ''licenseKey'' \<notin> fst ` set (withoutLicenseKey event)
         \<and> (\<forall>kv. fst kv \<noteq> ''licenseKey'' \<longrightarrow>
               (kv \<in> set (withoutLicenseKey event) \<longleftrightarrow> kv \<in> set event))
         \<and> withoutLicenseKey event = filter (\<lambda>kv. fst kv \<noteq> ''licenseKey'') event
         \<and> (\<forall>name. name \<noteq> ''licenseKey'' \<longrightarrow> map_of (withoutLicenseKey event) name = map_of event name)"
proof -
  have m: "\<And>name. name \<noteq> ''licenseKey'' \<Longrightarrow> map_of (withoutLicenseKey event) name = map_of event name"
    unfolding withoutLicenseKey_def by (induction event) auto
  show ?thesis using assms m
    by (auto simp: trackAnalyticsEvent_def trackCustomDeepLinkEvent_def truthy_def withoutLicenseKey_def)
qed

theorem analytics_strips_license_key_witness:
  "snd (trackAnalyticsEvent readyState taggedEvent (Response 200 (Inr (JObj [])))) =
     [HttpPost \<lparr>reqUrl = ANALYTICS_ENDPOINT,
                reqHeaders = [(''Content-Type'', ''application/json''), (''x-license-key'', ''LK-1234'')],
                reqBody = AnalyticsPayload
                  [(''eventType'', JStr ''deeplink''), (''eventName'', JStr ''button_click'')]\<rparr>]"
  using analytics_strips_license_key [of readyState "''LK-1234''" taggedEvent "Response 200 (Inr (JObj []))"]
  by (simp add: readyState_def taggedEvent_def withoutLicenseKey_def)

section \<open>Resolution without a launch URL\<close>

lemma retry_all_timeouts:
  "fst (fetchDeepLinkUrlWithRetry ''LK-1234'' fp 3 ep (\<lambda>attempt. Rejected (JsError ''AbortError'' ''Aborted'')))
     = failed ''Request timeout''"
  by (simp add: fetchDeepLinkUrlWithRetry_def retryLoop.simps timeout_result timeout_retryable)

text \<open>
  Claim C1, as stated, fails: with the module initialised, no launch URL, and a matching
  service that times out in all three attempts, the retry client returns the failure
  \<^verbatim>\<open>Request timeout\<close>, and \<^verbatim>\<open>getDeepLink\<close> returns
  \<^verbatim>\<open>{success: true, url: null, message: 'No deep link available'}\<close>.
\<close>

theorem failure_returned_as_miss_counterexample:
  "isInitialized readyState
   \<and> getInitialURL timeoutWorld = Returns None
   \<and> \<not> success (fst (fetchDeepLinkUrlWithRetry ''LK-1234'' pixelFingerprint 3
                        (Some DEFAULT_API_ENDPOINT) (matchNet timeoutWorld)))
   \<and> fst (getDeepLink readyState None timeoutWorld) =
        \<lparr>success = True, url = Null, msg = Some ''No deep link available'', error = None\<rparr>"
proof -
  obtain io where eq:
    "fetchDeepLinkUrlWithRetry ''LK-1234'' (generateDeviceFingerprint pixel) 3
       (Some DEFAULT_API_ENDPOINT) (\<lambda>attempt. Rejected (JsError ''AbortError'' ''Aborted''))
     = (failed ''Request timeout'', io)"
    using retry_all_timeouts [of "generateDeviceFingerprint pixel" "Some DEFAULT_API_ENDPOINT"]
    by (cases "fetchDeepLinkUrlWithRetry ''LK-1234'' (generateDeviceFingerprint pixel) 3
       (Some DEFAULT_API_ENDPOINT) (\<lambda>attempt. Rejected (JsError ''AbortError'' ''Aborted''))") simp
  have "\<not> success (failed ''Request timeout'')" by (simp add: failed_def)
  with eq show ?thesis
    by (simp add: getDeepLink_def Let_def readyState_def timeoutWorld_def truthy_def orElse_def
        retry_all_timeouts pixelFingerprint_def)
qed

text \<open>
  Claim C1, amended. When the module is initialised, the probe returns no URL and the
  retry client ends with a failure, \<^verbatim>\<open>getDeepLink\<close> returns
  \<^verbatim>\<open>{success: true, url: null, message: 'No deep link available'}\<close>: the guard
  \<^verbatim>\<open>!result.success || !result.url\<close> turns every result without a usable URL into
  this shape, and the error text of the failure is not passed on.
\<close>

theorem failure_returned_as_miss:
  assumes "isInitialized st" and "truthy (storedLicenseKey st)"
    and "getInitialURL w = Returns u0" and "\<not> truthy u0"
    and "\<not> success (fst (fetchDeepLinkUrlWithRetry (orElse (storedLicenseKey st) [])
                           (generateDeviceFingerprint (dev w)) 3 (Some DEFAULT_API_ENDPOINT) (matchNet w)))"
  shows "fst (getDeepLink st callback w) =
           \<lparr>success = True, url = Null, msg = Some ''No deep link available'', error = None\<rparr>"
proof -
  obtain result net_io where eq:
    "fetchDeepLinkUrlWithRetry (orElse (storedLicenseKey st) []) (generateDeviceFingerprint (dev w)) 3
       (Some DEFAULT_API_ENDPOINT) (matchNet w) = (result, net_io)"
    by (cases "fetchDeepLinkUrlWithRetry (orElse (storedLicenseKey st) [])
       (generateDeviceFingerprint (dev w)) 3 (Some DEFAULT_API_ENDPOINT) (matchNet w)")
  with assms(5) have "\<not> success result" by simp
  with assms(1-4) eq show ?thesis
    by (simp add: getDeepLink_def Let_def)
qed

theorem failure_returned_as_miss_witness:
  "isInitialized readyState \<and> truthy (storedLicenseKey readyState)
   \<and> getInitialURL timeoutWorld = Returns None \<and> \<not> truthy None
   \<and> fst (getDeepLink readyState (Some quietCallback) timeoutWorld) =
        \<lparr>success = True, url = Null, msg = Some ''No deep link available'', error = None\<rparr>"
proof -
  have a: "isInitialized readyState" and b: "truthy (storedLicenseKey readyState)"
    by (simp_all add: readyState_def truthy_def)
  have c: "getInitialURL timeoutWorld = Returns None" by (simp add: timeoutWorld_def)
  have d: "\<not> truthy None" by (simp add: truthy_def)
  have e: "\<not> success (fst (fetchDeepLinkUrlWithRetry (orElse (storedLicenseKey readyState) [])
                           (generateDeviceFingerprint (dev timeoutWorld)) 3 (Some DEFAULT_API_ENDPOINT)
                           (matchNet timeoutWorld)))"
    by (simp add: readyState_def orElse_def timeoutWorld_def retry_all_timeouts failed_def)
  from failure_returned_as_miss [OF a b c d e, of "Some quietCallback"] a b c d show ?thesis by simp
qed

section \<open>Resolution from the launch URL\<close>

lemma matchCalls_Nil: "matchCalls [] = 0"
  by (simp add: matchCalls_def)

lemma matchCalls_other:
  "matchCalls (LaunchUrlProbe # es) = matchCalls es"
  "matchCalls (FingerprintCollection # es) = matchCalls es"
  "matchCalls (CallbackCall u # es) = matchCalls es"
  by (simp_all add: matchCalls_def isMatchCall_def)

lemma analytics_effects:
  assumes "isInitialized st" and "truthy (storedLicenseKey st)"
  shows "\<exists>r. trackDeepLinkResolved st u source fp outcome = [HttpPost r]
            \<and> reqUrl r = ANALYTICS_ENDPOINT \<and> \<not> isMatchCall (HttpPost r)"
  using assms
  by (simp add: trackDeepLinkResolved_def trackAnalyticsEvent_def trackCustomDeepLinkEvent_def
      isMatchCall_def)

text \<open>
  Claim C3, as stated, fails: the caller's callback runs inside the outer \<^verbatim>\<open>try\<close>
  block, so with a launch URL present and a callback that throws, \<^verbatim>\<open>getDeepLink\<close>
  returns \<^verbatim>\<open>success = false\<close> with the thrown message instead of the hit.
\<close>

theorem launch_url_hit_counterexample:
  "isInitialized readyState \<and> truthy (storedLicenseKey readyState)
   \<and> getInitialURL linkWorld = Returns (Some ''myapp://promo/42'')
   \<and> fst (getDeepLink readyState (Some throwingCallback) linkWorld) =
        \<lparr>success = False, url = Undefined, msg = None,
         error = Some ''navigate is not a function''\<rparr>"
  by (simp add: getDeepLink_def Let_def readyState_def linkWorld_def truthy_def orElse_def
      throwingCallback_def caught_def failed_def)

text \<open>
  Claim C3, amended. In every initialised state in which the probe returns a non-empty
  URL \<^verbatim>\<open>u\<close>, and for every device and every outcome of the analytics request:
  \<^verbatim>\<open>getDeepLink\<close> sends no request to the matching service, the only request it sends
  goes to the analytics endpoint, and when no callback is given or the callback returns
  normally the result is \<^verbatim>\<open>{success: true, url: u}\<close>.
\<close>

theorem launch_url_hit:
  assumes "isInitialized st" and "truthy (storedLicenseKey st)"
    and "getInitialURL w = Returns (Some u)" and "u \<noteq> []"
  shows "((callback = None \<or> (\<exists>cb. callback = Some cb \<and> cb u = Returns ())) \<longrightarrow>
            fst (getDeepLink st callback w) =
              \<lparr>success = True, url = Val u, msg = None, error = None\<rparr>)
         \<and> matchCalls (snd (getDeepLink st callback w)) = 0
         \<and> (\<forall>r. HttpPost r \<in> set (snd (getDeepLink st callback w)) \<longrightarrow> reqUrl r = ANALYTICS_ENDPOINT)"
proof -
  from analytics_effects [OF assms(1,2), of u "''linking''" "generateDeviceFingerprint (dev w)" "analyticsNet w"]
  obtain r where r: "trackDeepLinkResolved st u ''linking'' (generateDeviceFingerprint (dev w)) (analyticsNet w)
                       = [HttpPost r]"
      "reqUrl r = ANALYTICS_ENDPOINT" "\<not> isMatchCall (HttpPost r)"
    by blast
  have mc: "matchCalls [HttpPost r] = 0" "matchCalls [HttpPost r, CallbackCall u] = 0"
    using r(3) by (simp_all add: matchCalls_def isMatchCall_def)
  show ?thesis
    using assms r(1,2) mc
    by (auto simp: getDeepLink_def Let_def truthy_def orElse_def matchCalls_other
        split: option.splits call.splits)
qed

theorem launch_url_hit_witness:
  "isInitialized readyState \<and> truthy (storedLicenseKey readyState)
   \<and> getInitialURL linkWorld = Returns (Some ''myapp://promo/42'')
   \<and> fst (getDeepLink readyState (Some quietCallback) linkWorld) =
        \<lparr>success = True, url = Val ''myapp://promo/42'', msg = None, error = None\<rparr>
   \<and> matchCalls (snd (getDeepLink readyState (Some quietCallback) linkWorld)) = 0"
proof -
  have a: "isInitialized readyState" and b: "truthy (storedLicenseKey readyState)"
    by (simp_all add: readyState_def truthy_def)
  have c: "getInitialURL linkWorld = Returns (Some ''myapp://promo/42'')" by (simp add: linkWorld_def)
  have d: "''myapp://promo/42'' \<noteq> []" by simp
  have e: "quietCallback ''myapp://promo/42'' = Returns ()" by (simp add: quietCallback_def)
  from launch_url_hit [OF a b c d, of "Some quietCallback"] a b c e show ?thesis by simp
qed

section \<open>The fingerprint collector\<close>

lemma andThen_Returns_iff:
  "andThen m f = Returns y \<longleftrightarrow> (\<exists>v. m = Returns v \<and> f v = Returns y)"
  by (cases m) (simp_all add: andThen_def)

lemma collect_sources:
  assumes "collect d = Returns fp"
  shows "(\<exists>v. getUniqueId d = Returns v)
       \<and> (\<exists>dl. callOr (getDeviceLocales d) None = Returns dl)
       \<and> (\<exists>l. callOr (getDeviceLocale d) None = Returns l)
       \<and> (\<exists>opts. intlResolvedOptions d = Returns opts)
       \<and> (platformOS d = Ios \<longrightarrow> (\<exists>c. getCarrier d = Returns c))
       \<and> (platformOS d = Android \<longrightarrow> (\<exists>r. callOr (isDeviceRooted d) False = Returns r))"
  using assms unfolding collect_def andThen_Returns_iff Let_def
  by (elim exE conjE) (auto split: if_splits)

lemma degraded:
  assumes "\<not> (\<exists>fp. collect d = Returns fp)"
  shows "generateDeviceFingerprint d = minimalFingerprint d"
  using assms by (cases "collect d") (simp_all add: generateDeviceFingerprint_def)

lemma collect_ip_throws:
  "collect (d\<lparr>getIpAddress := Available (Throws e)\<rparr>) =
     andThen (collect d) (\<lambda>fp. Returns (fp\<lparr>ipAddress := None\<rparr>))"
  by (simp add: collect_def andThen_def collectIpAddress_def callOr_def Let_def split: call.splits)


lemma collect_mandatory:
  assumes "collect d = Returns fp"
  shows "getUniqueId d = Returns (deviceId fp) \<and> getModel d = Returns (deviceModel fp)
       \<and> getSystemVersion d = Returns (osVersion fp)
       \<and> platform fp = platformOS d
       \<and> screenResolution fp = screenResolutionOf (window d)
       \<and> screenWidth fp = fst (window d) \<and> screenHeight fp = snd (window d)
       \<and> (\<exists>v b. getVersion d = Returns v \<and> getBuildNumber d = Returns b
              \<and> appVersion fp = v @ '' ('' @ b @ '')'')"
  using assms unfolding collect_def andThen_Returns_iff Let_def
  by (elim exE conjE) auto

lemma orElse_Some_Nil: "orElse (Some s) [] = s"
  by (simp add: orElse_def)

lemma chosen_locale:
  assumes "(if truthy (orOpt p l) then Returns (orOpt p l)
            else andThen (Returns opts) (\<lambda>r. Returns (Some (intlLocale r)))) = Returns chosen"
  shows "orElse chosen ''en'' = orElse p (orElse l (orElse (Some (intlLocale opts)) ''en''))"
  using assms
  by (auto simp: orOpt_def truthy_def orElse_def andThen_def split: if_splits option.splits)

lemma collect_locale_raw:
  assumes "collect d = Returns fp"
  shows "\<exists>dl legacy chosen.
           callOr (getDeviceLocales d) None = Returns dl
         \<and> callOr (getDeviceLocale d) None = Returns legacy
         \<and> (if truthy (orOpt (primaryLocaleOf dl) legacy)
             then Returns (orOpt (primaryLocaleOf dl) legacy)
             else andThen (intlResolvedOptions d) (\<lambda>r. Returns (Some (intlLocale r)))) = Returns chosen
         \<and> locale fp = Some (orElse chosen ''en'')
         \<and> language fp = Some (orElse (Some (splitFirst (orElse chosen ''en''))) ''en'')"
  using assms unfolding collect_def andThen_Returns_iff Let_def orElse_Some_Nil
  by (elim exE conjE) auto

lemma collect_locale:
  assumes "collect d = Returns fp"
    and "callOr (getDeviceLocales d) None = Returns dl"
    and "callOr (getDeviceLocale d) None = Returns legacy"
    and "intlResolvedOptions d = Returns opts"
  shows "locale fp = Some (orElse (primaryLocaleOf dl) (orElse legacy (orElse (Some (intlLocale opts)) ''en'')))
       \<and> language fp = Some (orElse (Some (splitFirst (orElse (primaryLocaleOf dl)
                               (orElse legacy (orElse (Some (intlLocale opts)) ''en''))))) ''en'')"
proof -
  from collect_locale_raw [OF assms(1)]
  obtain dl' legacy' chosen where raw:
      "callOr (getDeviceLocales d) None = Returns dl'"
      "callOr (getDeviceLocale d) None = Returns legacy'"
      "(if truthy (orOpt (primaryLocaleOf dl') legacy')
        then Returns (orOpt (primaryLocaleOf dl') legacy')
        else andThen (intlResolvedOptions d) (\<lambda>r. Returns (Some (intlLocale r)))) = Returns chosen"
      "locale fp = Some (orElse chosen ''en'')"
      "language fp = Some (orElse (Some (splitFirst (orElse chosen ''en''))) ''en'')"
    by blast
  from raw(1,2) assms(2,3) have same: "dl' = dl" "legacy' = legacy" by simp_all
  from raw(3) have c:
      "(if truthy (orOpt (primaryLocaleOf dl) legacy)
        then Returns (orOpt (primaryLocaleOf dl) legacy)
        else andThen (Returns opts) (\<lambda>r. Returns (Some (intlLocale r)))) = Returns chosen"
    unfolding same assms(4) .
  from chosen_locale [OF c] raw(4,5) show ?thesis by simp
qed

lemma screenResolution_nonempty: "screenResolutionOf wh \<noteq> []"
  by (simp add: screenResolutionOf_def)

lemma pixel_collect:
  "collect pixel = Returns
     \<lparr>platform = Android, osVersion = ''14'', deviceId = ''a1b2c3'',
      deviceModel = ''Pixel 8'', manufacturer = Some ''Google'',
      screenResolution = ''412x915'', screenWidth = JsNumber ''412'',
      screenHeight = JsNumber ''915'',
      timezone = Some ''Europe/Paris'', language = Some ''fr'',
      locale = Some ''fr-FR'', appVersion = ''1.0.0 (42)'', carrier = None,
      connectionType = Some ''wifi'', isSimulator = Some False,
      isRooted = Some False, ipAddress = Some ''192.168.1.20''\<rparr>"
  by (simp add: collect_def andThen_def pixel_def callOr_def primaryLocaleOf_def orOpt_def truthy_def
      orElse_def splitFirst_def screenResolutionOf_def
      collectIpAddress_def Let_def)


lemma minimal_when_source_throws:
  assumes "getUniqueId d = Throws e
         \<or> getDeviceLocales d = Available (Throws e)
         \<or> getDeviceLocale d = Available (Throws e)
         \<or> intlResolvedOptions d = Throws e
         \<or> platformOS d = Ios \<and> getCarrier d = Throws e
         \<or> platformOS d = Android \<and> isDeviceRooted d = Available (Throws e)"
  shows "generateDeviceFingerprint d = minimalFingerprint d"
proof (rule degraded, rule notI, elim exE)
  fix fp assume "collect d = Returns fp"
  from collect_sources [OF this] assms show False
    by (auto simp: callOr_def)
qed

lemma ip_lookup_isolated:
  "generateDeviceFingerprint (d\<lparr>getIpAddress := Available (Throws e)\<rparr>) =
     (generateDeviceFingerprint d)\<lparr>ipAddress := None\<rparr>"
  by (cases "collect d")
     (simp_all add: generateDeviceFingerprint_def collect_ip_throws andThen_def minimalFingerprint_def)

lemma missing_locales_api:
  assumes "getDeviceLocales d = Unavailable"
  shows "generateDeviceFingerprint d =
           generateDeviceFingerprint (d\<lparr>getDeviceLocales := Available (Returns None)\<rparr>)"
proof -
  have m: "minimalFingerprint (d\<lparr>getDeviceLocales := Available (Returns None)\<rparr>) = minimalFingerprint d"
    by (simp add: minimalFingerprint_def)
  have c: "collect (d\<lparr>getDeviceLocales := Available (Returns None)\<rparr>) = collect d"
    using assms by (simp add: collect_def callOr_def Let_def cong: if_cong)
  show ?thesis by (simp only: generateDeviceFingerprint_def m c)
qed

lemma missing_locale_api:
  assumes "getDeviceLocale d = Unavailable"
  shows "generateDeviceFingerprint d =
           generateDeviceFingerprint (d\<lparr>getDeviceLocale := Available (Returns None)\<rparr>)"
proof -
  have m: "minimalFingerprint (d\<lparr>getDeviceLocale := Available (Returns None)\<rparr>) = minimalFingerprint d"
    by (simp add: minimalFingerprint_def)
  have c: "collect (d\<lparr>getDeviceLocale := Available (Returns None)\<rparr>) = collect d"
    using assms by (simp add: collect_def callOr_def Let_def cong: if_cong)
  show ?thesis by (simp only: generateDeviceFingerprint_def m c)
qed

lemma missing_rooted_api:
  assumes "isDeviceRooted d = Unavailable"
  shows "generateDeviceFingerprint d =
           generateDeviceFingerprint (d\<lparr>isDeviceRooted := Available (Returns False)\<rparr>)"
proof -
  have m: "minimalFingerprint (d\<lparr>isDeviceRooted := Available (Returns False)\<rparr>) = minimalFingerprint d"
    by (simp add: minimalFingerprint_def)
  have c: "collect (d\<lparr>isDeviceRooted := Available (Returns False)\<rparr>) = collect d"
    using assms by (simp add: collect_def callOr_def Let_def cong: if_cong)
  show ?thesis by (simp only: generateDeviceFingerprint_def m c)
qed

lemma missing_ip_api:
  assumes "getIpAddress d = Unavailable"
  shows "generateDeviceFingerprint d =
           generateDeviceFingerprint (d\<lparr>getIpAddress := Available (Returns None)\<rparr>)"
proof -
  have m: "minimalFingerprint (d\<lparr>getIpAddress := Available (Returns None)\<rparr>) = minimalFingerprint d"
    by (simp add: minimalFingerprint_def)
  have c: "collect (d\<lparr>getIpAddress := Available (Returns None)\<rparr>) = collect d"
    using assms by (simp add: collect_def callOr_def collectIpAddress_def Let_def cong: if_cong)
  show ?thesis by (simp only: generateDeviceFingerprint_def m c)
qed

lemma noId_minimal:
  "generateDeviceFingerprint noIdDevice = minimalFingerprint noIdDevice"
  by (simp add: generateDeviceFingerprint_def collect_def andThen_def noIdDevice_def)

lemma pixel_fingerprint:
  "generateDeviceFingerprint pixel =
     \<lparr>platform = Android, osVersion = ''14'', deviceId = ''a1b2c3'',
      deviceModel = ''Pixel 8'', manufacturer = Some ''Google'',
      screenResolution = ''412x915'', screenWidth = JsNumber ''412'',
      screenHeight = JsNumber ''915'',
      timezone = Some ''Europe/Paris'', language = Some ''fr'',
      locale = Some ''fr-FR'', appVersion = ''1.0.0 (42)'', carrier = None,
      connectionType = Some ''wifi'', isSimulator = Some False,
      isRooted = Some False, ipAddress = Some ''192.168.1.20''\<rparr>"
  by (simp add: generateDeviceFingerprint_def pixel_collect)

lemma nameless_collect: "deviceModel (generateDeviceFingerprint namelessDevice) = []"
proof -
  have "generateDeviceFingerprint namelessDevice =
          (generateDeviceFingerprint (pixel\<lparr>getModel := Returns []\<rparr>))\<lparr>ipAddress := None\<rparr>"
    unfolding namelessDevice_def
    using ip_lookup_isolated [where d = "pixel\<lparr>getModel := Returns []\<rparr>"] by simp
  moreover have "deviceModel (generateDeviceFingerprint (pixel\<lparr>getModel := Returns []\<rparr>)) = []"
    by (simp add: generateDeviceFingerprint_def collect_def andThen_def pixel_def callOr_def Let_def)
  ultimately show ?thesis by simp
qed

lemma dash_collect:
  "locale (generateDeviceFingerprint dashDevice) = Some ''-US''
   \<and> language (generateDeviceFingerprint dashDevice) = Some ''en''"
  by (simp add: generateDeviceFingerprint_def collect_def andThen_def dashDevice_def pixel_def
      callOr_def primaryLocaleOf_def orOpt_def truthy_def orElse_def splitFirst_def Let_def)

text \<open>
  Claim C6, as stated, fails: the sources share one \<^verbatim>\<open>try\<close> block. On a device where
  only \<^verbatim>\<open>getUniqueId\<close> throws, while the locale, rooted and IP sources all answer,
  the returned fingerprint carries none of their values.
\<close>

theorem fingerprint_source_failures_counterexample:
  "getUniqueId noIdDevice = Throws (JsError ''Error'' ''getUniqueId failed'')
   \<and> getDeviceLocales noIdDevice = Available (Returns (Some [''fr-FR'', ''en-US'']))
   \<and> isDeviceRooted noIdDevice = Available (Returns False)
   \<and> getIpAddress noIdDevice = Available (Returns (Some ''192.168.1.20''))
   \<and> locale (generateDeviceFingerprint noIdDevice) = None
   \<and> isRooted (generateDeviceFingerprint noIdDevice) = None
   \<and> ipAddress (generateDeviceFingerprint noIdDevice) = None"
  by (simp add: noId_minimal minimalFingerprint_def) (simp add: noIdDevice_def pixel_def)

text \<open>
  Claim C6, amended. Only the IP lookup has a \<^verbatim>\<open>try\<close>/\<^verbatim>\<open>catch\<close> of its own: when it
  throws, the fingerprint is the one collected otherwise, with \<^verbatim>\<open>ipAddress\<close> left out.
  A missing \<^verbatim>\<open>getDeviceLocales\<close>, \<^verbatim>\<open>getDeviceLocale\<close>, \<^verbatim>\<open>isDeviceRooted\<close> or
  \<^verbatim>\<open>getIpAddress\<close> function is harmless: the result is what it would be had the
  function answered nothing (not rooted, for \<^verbatim>\<open>isDeviceRooted\<close>). A throw from any
  other source (the unique id, either locale API, \<^verbatim>\<open>Intl\<close>, the carrier on iOS, the
  rooted check on Android) makes the function return the minimal fingerprint, in which
  the device id is \<^verbatim>\<open>unknown\<close> and locale, language, carrier, rooted flag and IP
  address are all left out.
\<close>

theorem fingerprint_source_failures:
  "((getUniqueId d = Throws e
       \<or> getDeviceLocales d = Available (Throws e)
       \<or> getDeviceLocale d = Available (Throws e)
       \<or> intlResolvedOptions d = Throws e
       \<or> platformOS d = Ios \<and> getCarrier d = Throws e
       \<or> platformOS d = Android \<and> isDeviceRooted d = Available (Throws e))
      \<longrightarrow> generateDeviceFingerprint d = minimalFingerprint d)
   \<and> deviceId (minimalFingerprint d) = ''unknown''
   \<and> locale (minimalFingerprint d) = None
   \<and> language (minimalFingerprint d) = None
   \<and> carrier (minimalFingerprint d) = None
   \<and> isRooted (minimalFingerprint d) = None
   \<and> ipAddress (minimalFingerprint d) = None
   \<and> generateDeviceFingerprint (d\<lparr>getIpAddress := Available (Throws e)\<rparr>) =
        (generateDeviceFingerprint d)\<lparr>ipAddress := None\<rparr>
   \<and> (getDeviceLocales d = Unavailable \<longrightarrow>
        generateDeviceFingerprint d =
          generateDeviceFingerprint (d\<lparr>getDeviceLocales := Available (Returns None)\<rparr>))
   \<and> (getDeviceLocale d = Unavailable \<longrightarrow>
        generateDeviceFingerprint d =
          generateDeviceFingerprint (d\<lparr>getDeviceLocale := Available (Returns None)\<rparr>))
   \<and> (isDeviceRooted d = Unavailable \<longrightarrow>
        generateDeviceFingerprint d =
          generateDeviceFingerprint (d\<lparr>isDeviceRooted := Available (Returns False)\<rparr>))
   \<and> (getIpAddress d = Unavailable \<longrightarrow>
        generateDeviceFingerprint d =
          generateDeviceFingerprint (d\<lparr>getIpAddress := Available (Returns None)\<rparr>))"
proof -
  have a: "(getUniqueId d = Throws e
       \<or> getDeviceLocales d = Available (Throws e)
       \<or> getDeviceLocale d = Available (Throws e)
       \<or> intlResolvedOptions d = Throws e
       \<or> platformOS d = Ios \<and> getCarrier d = Throws e
       \<or> platformOS d = Android \<and> isDeviceRooted d = Available (Throws e))
      \<longrightarrow> generateDeviceFingerprint d = minimalFingerprint d"
    using minimal_when_source_throws [of d e] by blast
  have b: "deviceId (minimalFingerprint d) = ''unknown''
   \<and> locale (minimalFingerprint d) = None
   \<and> language (minimalFingerprint d) = None
   \<and> carrier (minimalFingerprint d) = None
   \<and> isRooted (minimalFingerprint d) = None
   \<and> ipAddress (minimalFingerprint d) = None"
    by (simp add: minimalFingerprint_def)
  have c: "getDeviceLocales d = Unavailable \<longrightarrow>
        generateDeviceFingerprint d =
          generateDeviceFingerprint (d\<lparr>getDeviceLocales := Available (Returns None)\<rparr>)"
    using missing_locales_api [of d] by blast
  have d: "getDeviceLocale d = Unavailable \<longrightarrow>
        generateDeviceFingerprint d =
          generateDeviceFingerprint (d\<lparr>getDeviceLocale := Available (Returns None)\<rparr>)"
    using missing_locale_api [of d] by blast
  have e: "isDeviceRooted d = Unavailable \<longrightarrow>
        generateDeviceFingerprint d =
          generateDeviceFingerprint (d\<lparr>isDeviceRooted := Available (Returns False)\<rparr>)"
    using missing_rooted_api [of d] by blast
  have f: "getIpAddress d = Unavailable \<longrightarrow>
        generateDeviceFingerprint d =
          generateDeviceFingerprint (d\<lparr>getIpAddress := Available (Returns None)\<rparr>)"
    using missing_ip_api [of d] by blast
  from a b c d e f ip_lookup_isolated [where d = d and e = e] show ?thesis by blast
qed

theorem fingerprint_source_failures_witness:
  "locale (generateDeviceFingerprint noIpDevice) = Some ''fr-FR''
   \<and> deviceId (generateDeviceFingerprint noIpDevice) = ''a1b2c3''
   \<and> isRooted (generateDeviceFingerprint noIpDevice) = Some False
   \<and> ipAddress (generateDeviceFingerprint noIpDevice) = None
   \<and> generateDeviceFingerprint noIdDevice = minimalFingerprint noIdDevice"
proof -
  have t: "getUniqueId noIdDevice = Throws (JsError ''Error'' ''getUniqueId failed'')"
    by (simp add: noIdDevice_def)
  from fingerprint_source_failures [of noIdDevice "JsError ''Error'' ''getUniqueId failed''"] t
  have m: "generateDeviceFingerprint noIdDevice = minimalFingerprint noIdDevice" by blast
  from fingerprint_source_failures [of pixel "JsError ''Error'' ''no network''"]
  have "generateDeviceFingerprint noIpDevice = (generateDeviceFingerprint pixel)\<lparr>ipAddress := None\<rparr>"
    unfolding noIpDevice_def by blast
  with m show ?thesis by (simp add: pixel_fingerprint)
qed

text \<open>
  Claim C7, as stated, fails on the non-empty part: the collector passes on what the
  sources report. On a device whose IP lookup throws and whose \<^verbatim>\<open>getModel()\<close> returns
  the empty string, the returned \<^verbatim>\<open>deviceModel\<close> is empty.
\<close>

theorem fingerprint_mandatory_fields_counterexample:
  "getIpAddress namelessDevice = Available (Throws (JsError ''Error'' ''no network''))
   \<and> getModel namelessDevice = Returns []
   \<and> deviceModel (generateDeviceFingerprint namelessDevice) = []"
  by (simp add: nameless_collect) (simp add: namelessDevice_def)

text \<open>
  Claim C7, amended. \<^verbatim>\<open>generateDeviceFingerprint\<close> returns a fingerprint for every
  combination of throwing sources (reading \<^verbatim>\<open>Platform\<close> and \<^verbatim>\<open>Dimensions\<close>, which the
  \<^verbatim>\<open>catch\<close> branch itself relies on, is taken not to throw). When the \<^verbatim>\<open>try\<close>
  block throws, the result is the minimal fingerprint: \<^verbatim>\<open>deviceId\<close>,
  \<^verbatim>\<open>deviceModel\<close> and \<^verbatim>\<open>appVersion\<close> are the fixed \<^verbatim>\<open>unknown\<close> and \<^verbatim>\<open>osVersion\<close>
  is the text of \<^verbatim>\<open>Platform.Version\<close>. Otherwise \<^verbatim>\<open>deviceId\<close>, \<^verbatim>\<open>deviceModel\<close> and
  \<^verbatim>\<open>osVersion\<close> are the values the sources returned and \<^verbatim>\<open>appVersion\<close> is
  \<^verbatim>\<open>version (build)\<close>. In both cases \<^verbatim>\<open>platform\<close> is \<^verbatim>\<open>Platform.OS\<close>,
  \<^verbatim>\<open>screenWidth\<close> and \<^verbatim>\<open>screenHeight\<close> are the two numbers that \<^verbatim>\<open>Dimensions\<close>
  reports, whole or not, and \<^verbatim>\<open>screenResolution\<close> is the text of the first, an
  \<^verbatim>\<open>x\<close> and the text of the second; \<^verbatim>\<open>screenResolution\<close> and \<^verbatim>\<open>appVersion\<close> are
  never empty, and the other three strings are non-empty whenever the reported values
  are.
\<close>

theorem fingerprint_mandatory_fields:
  "((\<exists>e. collect d = Throws e) \<longrightarrow>
       generateDeviceFingerprint d = minimalFingerprint d)
   \<and> deviceId (minimalFingerprint d) = ''unknown''
   \<and> deviceModel (minimalFingerprint d) = ''unknown''
   \<and> appVersion (minimalFingerprint d) = ''unknown''
   \<and> osVersion (minimalFingerprint d) = versionToString (platformVersion d)
   \<and> (\<forall>fp. collect d = Returns fp \<longrightarrow>
         generateDeviceFingerprint d = fp
         \<and> getUniqueId d = Returns (deviceId fp)
         \<and> getModel d = Returns (deviceModel fp)
         \<and> getSystemVersion d = Returns (osVersion fp)
         \<and> (\<exists>v b. getVersion d = Returns v \<and> getBuildNumber d = Returns b
                \<and> appVersion fp = v @ '' ('' @ b @ '')''))
   \<and> platform (generateDeviceFingerprint d) = platformOS d
   \<and> screenWidth (generateDeviceFingerprint d) = fst (window d)
   \<and> screenHeight (generateDeviceFingerprint d) = snd (window d)
   \<and> screenResolution (generateDeviceFingerprint d) =
        numberText (fst (window d)) @ ''x'' @ numberText (snd (window d))
   \<and> screenResolution (generateDeviceFingerprint d) \<noteq> []
   \<and> appVersion (generateDeviceFingerprint d) \<noteq> []
   \<and> (versionToString (platformVersion d) \<noteq> [] \<and> getUniqueId d \<noteq> Returns []
        \<and> getModel d \<noteq> Returns [] \<and> getSystemVersion d \<noteq> Returns []
       \<longrightarrow> osVersion (generateDeviceFingerprint d) \<noteq> []
         \<and> deviceId (generateDeviceFingerprint d) \<noteq> []
         \<and> deviceModel (generateDeviceFingerprint d) \<noteq> [])"
proof (cases "collect d")
  case (Throws e)
  then have g: "generateDeviceFingerprint d = minimalFingerprint d"
    by (simp add: generateDeviceFingerprint_def)
  show ?thesis
    unfolding g using Throws
    by (simp add: minimalFingerprint_def screenResolution_nonempty)
       (simp add: screenResolutionOf_def)
next
  case (Returns fp)
  then have g: "generateDeviceFingerprint d = fp"
    by (simp add: generateDeviceFingerprint_def)
  note m = collect_mandatory [OF Returns]
  from m have ne: "screenResolution fp \<noteq> []" "appVersion fp \<noteq> []"
    by (auto simp: screenResolution_nonempty)
  from m have sr:
    "screenResolution fp = numberText (fst (window d)) @ ''x'' @ numberText (snd (window d))"
    by (simp add: screenResolutionOf_def)
  have mins: "deviceId (minimalFingerprint d) = ''unknown''
   \<and> deviceModel (minimalFingerprint d) = ''unknown''
   \<and> appVersion (minimalFingerprint d) = ''unknown''
   \<and> osVersion (minimalFingerprint d) = versionToString (platformVersion d)"
    by (simp add: minimalFingerprint_def)
  from m have vals: "getUniqueId d \<noteq> Returns [] \<longrightarrow> deviceId fp \<noteq> []"
      "getModel d \<noteq> Returns [] \<longrightarrow> deviceModel fp \<noteq> []"
      "getSystemVersion d \<noteq> Returns [] \<longrightarrow> osVersion fp \<noteq> []"
    by auto
  show ?thesis
    unfolding g using Returns m ne sr mins vals by simp
qed

theorem fingerprint_mandatory_fields_witness:
  "collect foldable = Throws (JsError ''Error'' ''getUniqueId failed'')
   \<and> deviceId (generateDeviceFingerprint foldable) = ''unknown''
   \<and> deviceModel (generateDeviceFingerprint foldable) = ''unknown''
   \<and> appVersion (generateDeviceFingerprint foldable) = ''unknown''
   \<and> osVersion (generateDeviceFingerprint foldable) = ''34''
   \<and> screenWidth (generateDeviceFingerprint foldable) = JsNumber ''1e+21''
   \<and> screenHeight (generateDeviceFingerprint foldable) = JsNumber ''914.2857142857143''
   \<and> screenResolution (generateDeviceFingerprint foldable) = ''1e+21x914.2857142857143''"
proof -
  have t: "collect foldable = Throws (JsError ''Error'' ''getUniqueId failed'')"
    by (simp add: collect_def andThen_def foldable_def noIdDevice_def)
  note th = fingerprint_mandatory_fields [of foldable]
  from th t have g: "generateDeviceFingerprint foldable = minimalFingerprint foldable"
    by blast
  from th have "deviceId (minimalFingerprint foldable) = ''unknown''
   \<and> deviceModel (minimalFingerprint foldable) = ''unknown''
   \<and> appVersion (minimalFingerprint foldable) = ''unknown''
   \<and> osVersion (minimalFingerprint foldable) = versionToString (platformVersion foldable)
   \<and> screenWidth (generateDeviceFingerprint foldable) = fst (window foldable)
   \<and> screenHeight (generateDeviceFingerprint foldable) = snd (window foldable)
   \<and> screenResolution (generateDeviceFingerprint foldable) =
        numberText (fst (window foldable)) @ ''x'' @ numberText (snd (window foldable))"
    by blast
  with g t show ?thesis
    by (simp add: foldable_def noIdDevice_def pixel_def versionToString_def)
qed

text \<open>
  Claim C9, as stated, fails on the language part: for the locale \<^verbatim>\<open>-US\<close> the text
  before the hyphen is empty and the language is \<^verbatim>\<open>en\<close>.
\<close>

theorem locale_fallback_chain_counterexample:
  "getDeviceLocales dashDevice = Available (Returns (Some [''-US'']))
   \<and> locale (generateDeviceFingerprint dashDevice) = Some ''-US''
   \<and> splitFirst ''-US'' = []
   \<and> language (generateDeviceFingerprint dashDevice) = Some ''en''
   \<and> language (generateDeviceFingerprint dashDevice) \<noteq> Some (splitFirst ''-US'')"
  by (simp add: dash_collect splitFirst_def) (simp add: dashDevice_def)

text \<open>
  Claim C9, amended. Whenever the \<^verbatim>\<open>try\<close> block completes, \<^verbatim>\<open>locale\<close> is the first
  non-empty one of: the first entry of \<^verbatim>\<open>getDeviceLocales()\<close>, the answer of
  \<^verbatim>\<open>getDeviceLocale()\<close>, the locale resolved by \<^verbatim>\<open>Intl\<close>, and \<^verbatim>\<open>en\<close>; it is never
  empty; and \<^verbatim>\<open>language\<close> is the text of that locale before its first hyphen, or
  \<^verbatim>\<open>en\<close> when that text is empty.
\<close>

theorem locale_fallback_chain:
  assumes "collect d = Returns fp"
    and "callOr (getDeviceLocales d) None = Returns dl"
    and "callOr (getDeviceLocale d) None = Returns legacy"
    and "intlResolvedOptions d = Returns opts"
  shows "locale (generateDeviceFingerprint d) =
           Some (orElse (primaryLocaleOf dl) (orElse legacy (orElse (Some (intlLocale opts)) ''en'')))
       \<and> (\<exists>loc. locale (generateDeviceFingerprint d) = Some loc \<and> loc \<noteq> []
              \<and> language (generateDeviceFingerprint d) =
                  Some (if splitFirst loc = [] then ''en'' else splitFirst loc))"
proof -
  let ?loc = "orElse (primaryLocaleOf dl) (orElse legacy (orElse (Some (intlLocale opts)) ''en''))"
  have g: "generateDeviceFingerprint d = fp"
    using assms(1) by (simp add: generateDeviceFingerprint_def)
  from collect_locale [OF assms] have l: "locale fp = Some ?loc"
    and la: "language fp = Some (orElse (Some (splitFirst ?loc)) ''en'')"
    by simp_all
  have ne: "?loc \<noteq> []" by (intro orElse_nonempty) simp
  have "orElse (Some (splitFirst ?loc)) ''en'' = (if splitFirst ?loc = [] then ''en'' else splitFirst ?loc)"
    by (simp add: orElse_def)
  with l la ne show ?thesis unfolding g by simp
qed

theorem locale_fallback_chain_witness:
  "collect pixel = Returns (generateDeviceFingerprint pixel)
   \<and> callOr (getDeviceLocales pixel) None = Returns (Some [''fr-FR'', ''en-US''])
   \<and> callOr (getDeviceLocale pixel) None = Returns None
   \<and> locale (generateDeviceFingerprint pixel) = Some ''fr-FR''
   \<and> language (generateDeviceFingerprint pixel) = Some ''fr''"
proof -
  have a: "collect pixel = Returns (generateDeviceFingerprint pixel)"
    by (simp add: pixel_fingerprint pixel_collect)
  have b: "callOr (getDeviceLocales pixel) None = Returns (Some [''fr-FR'', ''en-US''])"
    and c: "callOr (getDeviceLocale pixel) None = Returns None"
    and d: "intlResolvedOptions pixel = Returns \<lparr>intlLocale = ''en-US'', intlTimeZone = ''Europe/Paris''\<rparr>"
    by (simp_all add: pixel_def callOr_def)
  from locale_fallback_chain [OF a b c d]
  have l: "locale (generateDeviceFingerprint pixel) = Some ''fr-FR''"
    by (simp add: primaryLocaleOf_def orElse_def)
  from locale_fallback_chain [OF a b c d] l
  have "language (generateDeviceFingerprint pixel) = Some ''fr''"
    by (auto simp: splitFirst_def)
  with a b c l show ?thesis by simp
qed

end
